theory Spec2Isabelle
  imports Main
begin

section \<open>Errors\<close>

text \<open>
  A Go \<open>error\<close> is an interface value that is either nil or carries a failure. The
  code distinguishes the not-found failures of the API machinery (\<open>kerr.IsNotFound\<close>)
  from all others, it wraps a failure into a new message with \<open>fmt.Errorf\<close>, and it
  combines failures with \<open>errors.NewAggregate\<close>. An error value is \<open>err option\<close>,
  \<open>None\<close> being nil.
\<close>

datatype err = Err string | NotFound string | Errorf string err | Aggregate "err list"

type_synonym error = "err option"

fun IsNotFound :: "error \<Rightarrow> bool" where
  "IsNotFound (Some (NotFound _)) = True"
| "IsNotFound _ = False"

text \<open>
  \<open>errors.NewAggregate\<close> drops the nil entries of its argument and returns nil when
  nothing is left.
\<close>

definition NewAggregate :: "error list \<Rightarrow> error" where
  "NewAggregate errlist =
     (let errs = List.map_filter (\<lambda>e. e) errlist
      in if errs = [] then None else Some (Aggregate errs))"

section \<open>Restore and setup options (pkg/util/options.go)\<close>

text \<open>
  The fields of \<open>api.Rule\<close> that \<open>RestoreOptionsForHost\<close> reads, and the
  \<open>restic.RestoreOptions\<close> it builds. Fields of the result carry the prefix \<open>ro_\<close>
  where the two structs use the same name.
\<close>

record Rule =
  SourceHost :: string
  TargetHosts :: "string list"
  Snapshots :: "string list"
  Paths :: "string list"
  Exclude :: "string list"
  Include :: "string list"

record RestoreOptions =
  ro_Host :: string
  ro_SourceHost :: string
  RestorePaths :: "string list"
  ro_Snapshots :: "string list"
  ro_Include :: "string list"
  ro_Exclude :: "string list"

text \<open>The zero value of the struct: \<open>var matchedRule restic.RestoreOptions\<close>.\<close>

definition zeroRestoreOptions :: RestoreOptions where
  "zeroRestoreOptions =
     \<lparr>ro_Host = [], ro_SourceHost = [], RestorePaths = [], ro_Snapshots = [],
      ro_Include = [], ro_Exclude = []\<rparr>"

text \<open>\<open>go_str.Contains(list, s)\<close>: some element of the list equals \<open>s\<close>.\<close>

definition Contains :: "string list \<Rightarrow> string \<Rightarrow> bool" where
  "Contains list s \<longleftrightarrow> s \<in> set list"

text \<open>
  The struct literal assigned to \<open>matchedRule\<close> in the loop body, with the choice of
  \<open>sourceHost\<close> that precedes it.
\<close>

definition ruleOptions :: "string \<Rightarrow> Rule \<Rightarrow> RestoreOptions" where
  "ruleOptions hostname rule =
     (let sourceHost = (if SourceHost rule \<noteq> [] then SourceHost rule else hostname)
      in \<lparr>ro_Host = hostname, ro_SourceHost = sourceHost, RestorePaths = Paths rule,
          ro_Snapshots = Snapshots rule, ro_Include = Include rule,
          ro_Exclude = Exclude rule\<rparr>)"

text \<open>
  The \<open>for _, rule := range rules\<close> loop, with \<open>matchedRule\<close> as the accumulator:
  \<open>continue\<close> is the recursive call, \<open>return matchedRule\<close> ends the recursion.
\<close>

fun restoreLoop :: "string \<Rightarrow> Rule list \<Rightarrow> RestoreOptions \<Rightarrow> RestoreOptions" where
  "restoreLoop hostname [] matchedRule = matchedRule"
| "restoreLoop hostname (rule # rules) matchedRule =
     (if length (TargetHosts rule) = 0 \<or> Contains (TargetHosts rule) hostname
      then (if length (TargetHosts rule) = 0
            then restoreLoop hostname rules (ruleOptions hostname rule)
            else ruleOptions hostname rule)
      else restoreLoop hostname rules matchedRule)"

definition RestoreOptionsForHost :: "string \<Rightarrow> Rule list \<Rightarrow> RestoreOptions" where
  "RestoreOptionsForHost hostname rules = restoreLoop hostname rules zeroRestoreOptions"

text \<open>
  A rule decides the result when its target-host list is non-empty and holds the
  hostname; a rule with an empty target-host list is a default rule.
\<close>

definition hostRule :: "string \<Rightarrow> Rule \<Rightarrow> bool" where
  "hostRule hostname rule \<longleftrightarrow> TargetHosts rule \<noteq> [] \<and> hostname \<in> set (TargetHosts rule)"

definition defaultRule :: "Rule \<Rightarrow> bool" where
  "defaultRule rule \<longleftrightarrow> TargetHosts rule = []"

text \<open>
  \<open>SetupOptionsForRepository\<close> reads the repository's backend only through its
  methods, which live in the API library. The backend is therefore given by what each
  method returns: \<open>Provider\<close>, \<open>Container\<close> and \<open>Prefix\<close> return a string and an
  error; \<open>Endpoint\<close> and \<open>Region\<close> return a string and a second result, which
  tells whether the lookup succeeded and which the code discards with \<open>_\<close>: its type
  \<open>'e\<close> is left open, since the code never inspects it; \<open>MaxConnections\<close> returns an
  integer.
\<close>

record 'e Backend =
  Provider :: "string \<times> error"
  Container :: "string \<times> error"
  Prefix :: "string \<times> error"
  Endpoint :: "string \<times> 'e"
  Region :: "string \<times> 'e"
  MaxConnections :: int





section \<open>The backup invoker reconciler (BackupConfiguration controller)\<close>

subsection \<open>Constants of the API packages\<close>

definition StashKey :: string where "StashKey = ''stash.appscode.com''"
definition ResticSnapshotter :: string where "ResticSnapshotter = ''Restic''"
definition ResourceKindBackupConfiguration :: string where
  "ResourceKindBackupConfiguration = ''BackupConfiguration''"
definition ResourceKindRestoreSession :: string where
  "ResourceKindRestoreSession = ''RestoreSession''"
definition KindDeployment :: string where "KindDeployment = ''Deployment''"
definition KindDaemonSet :: string where "KindDaemonSet = ''DaemonSet''"
definition KindStatefulSet :: string where "KindStatefulSet = ''StatefulSet''"
definition KindReplicationController :: string where
  "KindReplicationController = ''ReplicationController''"
definition KindReplicaSet :: string where "KindReplicaSet = ''ReplicaSet''"
definition KindDeploymentConfig :: string where "KindDeploymentConfig = ''DeploymentConfig''"
definition ModelSidecar :: string where "ModelSidecar = ''sidecar''"
definition RestartPolicyNever :: string where "RestartPolicyNever = ''Never''"
definition PullIfNotPresent :: string where "PullIfNotPresent = ''IfNotPresent''"

text \<open>\<open>time.Duration\<close> counts nanoseconds; \<open>time.Second\<close> is \<open>10^9\<close> of them.\<close>

type_synonym Duration = int

definition Second :: Duration where "Second = 1000000000"

subsection \<open>Objects\<close>

record TargetRef =
  tr_APIVersion :: string
  tr_Kind :: string
  tr_Name :: string

record BackupTarget =
  Ref :: TargetRef

text \<open>\<open>Target\<close> is a pointer in the source: \<open>None\<close> is nil.\<close>

record BackupInvokerTargetInfo =
  Target :: "BackupTarget option"

record TypeMeta =
  tm_Kind :: string
  tm_APIVersion :: string

record ObjectMeta =
  om_Name :: string
  om_Namespace :: string
  DeletionTimestamp :: "int option"
  Finalizers :: "string list"

record ObjectReference =
  or_Kind :: string
  or_Namespace :: string
  or_Name :: string

record OwnerReference =
  ow_Kind :: string
  ow_Name :: string
  ow_UID :: string

record PodRuntimeSettings =
  ServiceAccountName :: string
  prs_ImagePullSecrets :: "string list"
  prs_SecurityContext :: "string option"

record ContainerRuntimeSettings =
  crs_Resources :: string
  crs_Env :: "string list"
  crs_EnvFrom :: "string list"
  crs_SecurityContext :: "string option"

record RuntimeSettings =
  rs_Pod :: "PodRuntimeSettings option"
  rs_Container :: "ContainerRuntimeSettings option"

text \<open>
  \<open>invoker.BackupInvoker\<close>, with the fields the controller reads. Its function-valued
  fields (\<open>AddFinalizer\<close>, \<open>RemoveFinalizer\<close>, \<open>SetCondition\<close>) act on the cluster
  and are operations on the world below. \<open>OwnerRef\<close> is dereferenced without a nil check
  by the code and is a value here; \<open>ObjectRef\<close> is checked against nil.
\<close>

record BackupInvoker =
  TypeMeta :: TypeMeta
  ObjectMeta :: ObjectMeta
  Driver :: string
  inv_Repository :: string
  Schedule :: string
  Paused :: bool
  RuntimeSettings :: RuntimeSettings
  TargetsInfo :: "BackupInvokerTargetInfo list"
  OwnerRef :: OwnerReference
  ObjectRef :: "ObjectReference option"

record Repository =
  repo_Namespace :: string
  repo_Name :: string
  StorageSecretName :: string

record Secret =
  sec_Namespace :: string
  sec_Name :: string

text \<open>
  A typed client's \<open>Get\<close> returns a pointer and an error. On success the pointer is
  the object. On failure the code of the reconciler still reads through the pointer it
  received (for the Secret), so the failure carries that pointer: generated clients return
  an empty object there, test fakes return nil.
\<close>

datatype 'a GetResult = GetOk 'a | GetErr "'a option" err

text \<open>
  The trigger CronJob, with the fields of the object and of its pod template that the
  controller writes: schedule, suspend flag, owner references, containers, restart
  policy, service account, image pull secrets and pod security context. The label maps
  that the transform function also writes are left out of the model: no property below
  speaks about them.
\<close>

record Container =
  c_Name :: string
  c_ImagePullPolicy :: string
  c_Image :: string
  c_Args :: "string list"
  c_Resources :: string
  c_Env :: "string list"
  c_EnvFrom :: "string list"
  c_SecurityContext :: "string option"

record CronJob =
  cj_Namespace :: string
  cj_Name :: string
  cj_OwnerReferences :: "OwnerReference list"
  cj_Schedule :: string
  cj_Suspend :: "bool option"
  cj_Containers :: "Container list"
  cj_RestartPolicy :: string
  cj_ServiceAccountName :: string
  cj_ImagePullSecrets :: "string list"
  cj_SecurityContext :: "string option"

subsection \<open>Conditions\<close>

datatype ConditionType = RepositoryFound | BackendSecretFound | BackupTargetFound | CronJobCreated

datatype ConditionStatus = ConditionTrue | ConditionFalse | ConditionUnknown

text \<open>
  A condition is identified by its type and, for \<open>BackupTargetFound\<close>, by the target
  it is about.
\<close>

type_synonym ConditionKey = "ConditionType \<times> TargetRef option"

subsection \<open>The world the controller acts on\<close>

datatype WorkloadQueue = dpQueue | dsQueue | ssQueue | rcQueue | rsQueue | dcQueue

record Event =
  ev_Source :: string
  ev_Ref :: ObjectReference
  ev_Reason :: string

text \<open>
  What a reconciliation pass can change: the finalizers stored on the invoker object,
  its stored conditions, the delayed additions to the BackupConfiguration queue (key and
  delay), the additions to the workload queues, the CronJobs of the cluster (looked up by
  namespace and name), the ServiceAccounts created or patched, and the events written.
\<close>

record World =
  stored_Finalizers :: "string list"
  Conditions :: "(ConditionKey \<times> ConditionStatus) list"
  bcQueue :: "(string \<times> Duration) list"
  workloadQueues :: "(WorkloadQueue \<times> string) list"
  CronJobs :: "CronJob list"
  ServiceAccounts :: "(string \<times> string) list"
  Events :: "Event list"

text \<open>The world in which nothing has been written yet.\<close>

definition emptyWorld :: World where
  "emptyWorld =
     \<lparr>stored_Finalizers = [], Conditions = [], bcQueue = [], workloadQueues = [], CronJobs = [],
      ServiceAccounts = [], Events = []\<rparr>"

text \<open>
  A lister returns an object of a workload kind; the controller only computes its queue
  key. The object is given by its namespace and name.
\<close>

type_synonym Resource = "string \<times> string"

text \<open>
  The collaborators of the controller that are not part of the files at hand (API
  clients, listers, the invoker's closures, the RBAC and event helpers, library
  functions), each given by what a call returns. Failures of writes are given by the
  error the call returns; a write that returns nil takes effect on the world.
\<close>

record Env =
  AddFinalizer_err :: error
  RemoveFinalizer_err :: error
  Repositories_Get :: "string \<Rightarrow> string \<Rightarrow> Repository GetResult"
  Secrets_Get :: "string \<Rightarrow> string \<Rightarrow> Secret GetResult"
  SetCondition_err :: "ConditionKey \<Rightarrow> ConditionStatus \<Rightarrow> error"
  IsTargetExist :: "TargetRef \<Rightarrow> string \<Rightarrow> bool \<times> error"
  BackupModel :: "string \<Rightarrow> string"
  Lister_Get :: "string \<Rightarrow> string \<Rightarrow> string \<Rightarrow> Resource option"
  MetaNamespaceKeyFunc :: "Resource \<Rightarrow> string \<times> error"
  ocClient_set :: bool
  dcLister_set :: bool
  CreateEvent_err :: error
  CronJobs_Get_err :: error
  CronJobs_Create_err :: error
  CronJobs_Patch_err :: error
  EnsureOwnerReference :: "OwnerReference list \<Rightarrow> OwnerReference \<Rightarrow> OwnerReference list"
  UpsertContainer :: "Container list \<Rightarrow> Container \<Rightarrow> Container list"
  EnsureClusterRoleBindingDeleted_err :: error
  CreateOrPatchServiceAccount_err :: error
  EnsureCronJobRBAC_err :: error
  ImagePullSecrets_set :: bool
  ensureImagePullSecrets_result :: "string list \<times> error"
  ValidCronJobNameWithPrefix :: "string \<Rightarrow> string \<Rightarrow> string"
  PrefixStashTrigger :: string
  StashCronJobContainer :: string
  ContainerImage :: string

text \<open>
  A call of the reconciler returns an error value, or panics on a nil pointer.
\<close>

datatype outcome = Return error | Panic

subsection \<open>Operations of the invoker and of the condition helpers\<close>

text \<open>
  Modelled from the spec: the invoker's closures and the \<open>conditions\<close> package are
  outside the files at hand. \<open>AddFinalizer\<close> and \<open>RemoveFinalizer\<close> are idempotent
  insert and remove on the stored finalizer list; a condition write stores the status
  under its key, the last write winning.
\<close>

definition HasFinalizer :: "ObjectMeta \<Rightarrow> string \<Rightarrow> bool" where
  "HasFinalizer meta finalizer \<longleftrightarrow> finalizer \<in> set (Finalizers meta)"

definition AddFinalizer :: "Env \<Rightarrow> World \<Rightarrow> error \<times> World" where
  "AddFinalizer env w =
     (case AddFinalizer_err env of
        Some e \<Rightarrow> (Some e, w)
      | None \<Rightarrow>
          (None, if StashKey \<in> set (stored_Finalizers w) then w
                 else w\<lparr>stored_Finalizers := stored_Finalizers w @ [StashKey]\<rparr>))"

definition RemoveFinalizer :: "Env \<Rightarrow> World \<Rightarrow> error \<times> World" where
  "RemoveFinalizer env w =
     (case RemoveFinalizer_err env of
        Some e \<Rightarrow> (Some e, w)
      | None \<Rightarrow> (None, w\<lparr>stored_Finalizers := removeAll StashKey (stored_Finalizers w)\<rparr>))"

fun upsert :: "'k \<Rightarrow> 'v \<Rightarrow> ('k \<times> 'v) list \<Rightarrow> ('k \<times> 'v) list" where
  "upsert k v [] = [(k, v)]"
| "upsert k v (p # ps) = (if fst p = k then (k, v) # ps else p # upsert k v ps)"

definition SetCondition ::
  "Env \<Rightarrow> ConditionKey \<Rightarrow> ConditionStatus \<Rightarrow> World \<Rightarrow> error \<times> World" where
  "SetCondition env key status w =
     (case SetCondition_err env key status of
        Some e \<Rightarrow> (Some e, w)
      | None \<Rightarrow> (None, w\<lparr>Conditions := upsert key status (Conditions w)\<rparr>))"

definition condition :: "World \<Rightarrow> ConditionKey \<Rightarrow> ConditionStatus option" where
  "condition w key = map_of (Conditions w) key"

subsection \<open>Events and failure handlers\<close>

definition CreateEvent :: "Env \<Rightarrow> string \<Rightarrow> ObjectReference \<Rightarrow> string \<Rightarrow> World \<Rightarrow> error \<times> World" where
  "CreateEvent env source ref reason w =
     (case CreateEvent_err env of
        Some e \<Rightarrow> (Some e, w)
      | None \<Rightarrow>
          (None, w\<lparr>Events := Events w @ [\<lparr>ev_Source = source, ev_Ref = ref, ev_Reason = reason\<rparr>]\<rparr>))"

definition handleCronJobCreationFailure ::
  "Env \<Rightarrow> ObjectReference option \<Rightarrow> error \<Rightarrow> World \<Rightarrow> error \<times> World" where
  "handleCronJobCreationFailure env ref err w =
     (case ref of
        None \<Rightarrow>
          (NewAggregate [err, Some (Err ''failed to write cronjob creation failure event. Reason: provided ObjectReference is nil'')], w)
      | Some r \<Rightarrow>
          (let (err2, w') = CreateEvent env ''EventSourceBackupConfigurationController'' r
                              ''EventReasonCronJobCreationFailed'' w
           in (NewAggregate [err, err2], w')))"

definition handleWorkloadControllerTriggerFailure ::
  "Env \<Rightarrow> ObjectReference option \<Rightarrow> error \<Rightarrow> World \<Rightarrow> error \<times> World" where
  "handleWorkloadControllerTriggerFailure env ref err w =
     (case ref of
        None \<Rightarrow>
          (NewAggregate [err, Some (Err ''failed to write workload controller triggering failure event. Reason: provided ObjectReference is nil'')], w)
      | Some r \<Rightarrow>
          (let eventSource =
                 (if or_Kind r = ResourceKindBackupConfiguration
                  then ''EventSourceBackupConfigurationController''
                  else if or_Kind r = ResourceKindRestoreSession
                  then ''EventSourceRestoreSessionController''
                  else []);
               (err2, w') = CreateEvent env eventSource r
                              ''EventReasonWorkloadControllerTriggeringFailed'' w
           in (NewAggregate [err, err2], w')))"

subsection \<open>Notifying the workload controllers\<close>

text \<open>
  One case of the \<open>switch\<close> in \<open>sendEventToWorkloadQueue\<close>: when the lister finds the
  resource, its key is computed and, if that succeeds, added to the queue of the kind.
  The case returns the error of the key function, except the StatefulSet case, which has
  no \<open>return err\<close> and falls through to the final \<open>return nil\<close>; so does every case
  whose lister does not find the resource.
\<close>

definition enqueueFromLister ::
  "Env \<Rightarrow> string \<Rightarrow> WorkloadQueue \<Rightarrow> bool \<Rightarrow> string \<Rightarrow> string \<Rightarrow> World \<Rightarrow> error \<times> World" where
  "enqueueFromLister env kind q returnsErr namespace resourceName w =
     (case Lister_Get env kind namespace resourceName of
        None \<Rightarrow> (None, w)
      | Some resource \<Rightarrow>
          (let (key, err) = MetaNamespaceKeyFunc env resource;
               w' = (if err = None then w\<lparr>workloadQueues := workloadQueues w @ [(q, key)]\<rparr> else w)
           in (if returnsErr then err else None, w')))"

definition sendEventToWorkloadQueue ::
  "Env \<Rightarrow> string \<Rightarrow> string \<Rightarrow> string \<Rightarrow> World \<Rightarrow> error \<times> World" where
  "sendEventToWorkloadQueue env kind namespace resourceName w =
     (if kind = KindDeployment then
        enqueueFromLister env KindDeployment dpQueue True namespace resourceName w
      else if kind = KindDaemonSet then
        enqueueFromLister env KindDaemonSet dsQueue True namespace resourceName w
      else if kind = KindStatefulSet then
        enqueueFromLister env KindStatefulSet ssQueue False namespace resourceName w
      else if kind = KindReplicationController then
        enqueueFromLister env KindReplicationController rcQueue True namespace resourceName w
      else if kind = KindReplicaSet then
        enqueueFromLister env KindReplicaSet rsQueue True namespace resourceName w
      else if kind = KindDeploymentConfig then
        (if ocClient_set env \<and> dcLister_set env
         then enqueueFromLister env KindDeploymentConfig dcQueue True namespace resourceName w
         else (None, w))
      else (None, w))"

definition EnsureV1beta1SidecarDeleted ::
  "Env \<Rightarrow> TargetRef \<Rightarrow> string \<Rightarrow> World \<Rightarrow> error \<times> World" where
  "EnsureV1beta1SidecarDeleted env targetRef namespace w =
     sendEventToWorkloadQueue env (tr_Kind targetRef) namespace (tr_Name targetRef) w"

definition EnsureV1beta1Sidecar ::
  "Env \<Rightarrow> TargetRef \<Rightarrow> string \<Rightarrow> World \<Rightarrow> error \<times> World" where
  "EnsureV1beta1Sidecar env targetRef namespace w =
     sendEventToWorkloadQueue env (tr_Kind targetRef) namespace (tr_Name targetRef) w"

subsection \<open>The trigger CronJob\<close>

text \<open>
  \<open>strings.ReplaceAll(name, ".", "-")\<close> followed by the library function that builds a
  valid CronJob name from a prefix.
\<close>

definition getBackupCronJobName :: "Env \<Rightarrow> string \<Rightarrow> string" where
  "getBackupCronJobName env name =
     ValidCronJobNameWithPrefix env (PrefixStashTrigger env)
       (map (\<lambda>c. if c = CHR ''.'' then CHR ''-'' else c) name)"

text \<open>
  Modelled from the spec: the CronJob client and the create-or-patch helpers are outside
  the files at hand. \<open>Get\<close> fails with the injected error if there is one, and with
  not-found when the cluster has no CronJob of that namespace and name. Creation stores
  the transformed new object. A patch applies the transform to the current object and is
  sent only when that changes something; both writes can fail, leaving the cluster
  unchanged.
\<close>

definition findCronJob :: "World \<Rightarrow> string \<Rightarrow> string \<Rightarrow> CronJob option" where
  "findCronJob w namespace name =
     find (\<lambda>cj. cj_Namespace cj = namespace \<and> cj_Name cj = name) (CronJobs w)"

fun storeCronJob :: "CronJob \<Rightarrow> CronJob list \<Rightarrow> CronJob list" where
  "storeCronJob cj [] = [cj]"
| "storeCronJob cj (c # cs) =
     (if cj_Namespace c = cj_Namespace cj \<and> cj_Name c = cj_Name cj then cj # cs
      else c # storeCronJob cj cs)"

definition CronJobs_Get :: "Env \<Rightarrow> World \<Rightarrow> string \<Rightarrow> string \<Rightarrow> CronJob GetResult" where
  "CronJobs_Get env w namespace name =
     (case CronJobs_Get_err env of
        Some e \<Rightarrow> GetErr None e
      | None \<Rightarrow>
          (case findCronJob w namespace name of
             None \<Rightarrow> GetErr None (NotFound name)
           | Some cur \<Rightarrow> GetOk cur))"

definition newCronJob :: "string \<Rightarrow> string \<Rightarrow> CronJob" where
  "newCronJob namespace name =
     \<lparr>cj_Namespace = namespace, cj_Name = name, cj_OwnerReferences = [], cj_Schedule = [],
      cj_Suspend = None, cj_Containers = [], cj_RestartPolicy = [],
      cj_ServiceAccountName = [], cj_ImagePullSecrets = [], cj_SecurityContext = None\<rparr>"

definition PatchCronJob :: "Env \<Rightarrow> CronJob \<Rightarrow> (CronJob \<Rightarrow> CronJob) \<Rightarrow> World \<Rightarrow> error \<times> World" where
  "PatchCronJob env cur transform w =
     (let modified = transform cur
      in if modified = cur then (None, w)
         else (case CronJobs_Patch_err env of
                 Some e \<Rightarrow> (Some e, w)
               | None \<Rightarrow>
                   (None, w\<lparr>CronJobs := storeCronJob modified (CronJobs w)\<rparr>)))"

definition CreateOrPatchCronJob ::
  "Env \<Rightarrow> string \<Rightarrow> string \<Rightarrow> (CronJob \<Rightarrow> CronJob) \<Rightarrow> World \<Rightarrow> error \<times> World" where
  "CreateOrPatchCronJob env namespace name transform w =
     (case CronJobs_Get env w namespace name of
        GetOk cur \<Rightarrow> PatchCronJob env cur transform w
      | GetErr p e \<Rightarrow>
          (if IsNotFound (Some e) then
             (case CronJobs_Create_err env of
                Some e' \<Rightarrow> (Some e', w)
              | None \<Rightarrow>
                  (None, w\<lparr>CronJobs :=
                     storeCronJob (transform (newCronJob namespace name)) (CronJobs w)\<rparr>))
           else (Some e, w)))"

text \<open>
  The transform function that \<open>EnsureBackupTriggeringCronJob\<close> passes to
  \<open>CreateOrPatchCronJob\<close>, statement by statement on the modelled fields.
\<close>

definition cronJobTransform ::
  "Env \<Rightarrow> BackupInvoker \<Rightarrow> string \<Rightarrow> string list \<Rightarrow> CronJob \<Rightarrow> CronJob" where
  "cronJobTransform env invoker serviceAccountName imagePullSecrets in0 =
     (let in1 = in0\<lparr>cj_OwnerReferences :=
                   EnsureOwnerReference env (cj_OwnerReferences in0) (OwnerRef invoker)\<rparr>;
          in2 = in1\<lparr>cj_Schedule := Schedule invoker\<rparr>;
          in3 = in2\<lparr>cj_Suspend := Some (Paused invoker)\<rparr>;
          container0 =
            \<lparr>c_Name = StashCronJobContainer env, c_ImagePullPolicy = PullIfNotPresent,
             c_Image = ContainerImage env,
             c_Args = [''create-backupsession'',
                       ''--invoker-name='' @ ow_Name (OwnerRef invoker),
                       ''--invoker-kind='' @ ow_Kind (OwnerRef invoker)],
             c_Resources = [], c_Env = [], c_EnvFrom = [], c_SecurityContext = None\<rparr>;
          container =
            (case rs_Container (RuntimeSettings invoker) of
               None \<Rightarrow> container0
             | Some crs \<Rightarrow>
                 container0\<lparr>c_Resources := crs_Resources crs, c_Env := crs_Env crs,
                            c_EnvFrom := crs_EnvFrom crs,
                            c_SecurityContext := crs_SecurityContext crs\<rparr>);
          in4 = in3\<lparr>cj_Containers := UpsertContainer env (cj_Containers in3) container\<rparr>;
          in5 = in4\<lparr>cj_RestartPolicy := RestartPolicyNever\<rparr>;
          in6 = in5\<lparr>cj_ServiceAccountName := serviceAccountName\<rparr>;
          in7 = in6\<lparr>cj_ImagePullSecrets := imagePullSecrets\<rparr>
      in (case rs_Pod (RuntimeSettings invoker) of
            None \<Rightarrow> in7
          | Some pod \<Rightarrow>
              (let in8 = (if length (prs_ImagePullSecrets pod) \<noteq> 0
                          then in7\<lparr>cj_ImagePullSecrets := prs_ImagePullSecrets pod\<rparr> else in7)
               in (case prs_SecurityContext pod of
                     None \<Rightarrow> in8
                   | Some sc \<Rightarrow> in8\<lparr>cj_SecurityContext := Some sc\<rparr>))))"

definition CreateOrPatchServiceAccount :: "Env \<Rightarrow> string \<Rightarrow> string \<Rightarrow> World \<Rightarrow> error \<times> World" where
  "CreateOrPatchServiceAccount env namespace name w =
     (case CreateOrPatchServiceAccount_err env of
        Some e \<Rightarrow> (Some e, w)
      | None \<Rightarrow>
          (None, if (namespace, name) \<in> set (ServiceAccounts w) then w
                 else w\<lparr>ServiceAccounts := ServiceAccounts w @ [(namespace, name)]\<rparr>))"

definition EnsureBackupTriggeringCronJob :: "Env \<Rightarrow> BackupInvoker \<Rightarrow> World \<Rightarrow> error \<times> World" where
  "EnsureBackupTriggeringCronJob env invoker w =
     (let metaName = getBackupCronJobName env (om_Name (ObjectMeta invoker));
          metaNamespace = om_Namespace (ObjectMeta invoker);
          specified =
            (case rs_Pod (RuntimeSettings invoker) of
               None \<Rightarrow> None
             | Some pod \<Rightarrow>
                 (if ServiceAccountName pod \<noteq> [] then Some (ServiceAccountName pod) else None));
          (serviceAccountName, saErr, w1) =
            (case specified of
               Some name \<Rightarrow> (name, None, w)
             | None \<Rightarrow>
                 (let (e, w') = CreateOrPatchServiceAccount env metaNamespace metaName w
                  in (metaName, e, w')))
      in case saErr of
           Some e \<Rightarrow> (Some e, w1)
         | None \<Rightarrow>
      (case EnsureCronJobRBAC_err env of
           Some e \<Rightarrow> (Some e, w1)
         | None \<Rightarrow>
      (let (imagePullSecrets, ipsErr) =
             (if ImagePullSecrets_set env then ensureImagePullSecrets_result env else ([], None))
       in case ipsErr of
            Some e \<Rightarrow> (Some e, w1)
          | None \<Rightarrow>
              CreateOrPatchCronJob env metaNamespace metaName
                (cronJobTransform env invoker serviceAccountName imagePullSecrets) w1)))"

text \<open>
  \<open>EnsureBackupTriggeringCronJobDeleted\<close> makes the invoker the owner of its CronJob,
  so that the garbage collector removes the CronJob with the invoker; a CronJob that
  does not exist is no failure.
\<close>

definition EnsureBackupTriggeringCronJobDeleted ::
  "Env \<Rightarrow> BackupInvoker \<Rightarrow> World \<Rightarrow> error \<times> World" where
  "EnsureBackupTriggeringCronJobDeleted env invoker w =
     (case CronJobs_Get env w (om_Namespace (ObjectMeta invoker))
             (getBackupCronJobName env (om_Name (ObjectMeta invoker))) of
        GetErr p e \<Rightarrow> (if IsNotFound (Some e) then (None, w) else (Some e, w))
      | GetOk cur \<Rightarrow>
          PatchCronJob env cur
            (\<lambda>in0. in0\<lparr>cj_OwnerReferences :=
                         EnsureOwnerReference env (cj_OwnerReferences in0) (OwnerRef invoker)\<rparr>) w)"

subsection \<open>Requeueing\<close>

definition requeueInvoker ::
  "BackupInvoker \<Rightarrow> string \<Rightarrow> Duration \<Rightarrow> World \<Rightarrow> error \<times> World" where
  "requeueInvoker invoker key delay w =
     (if tm_Kind (TypeMeta invoker) = ResourceKindBackupConfiguration
      then (None, w\<lparr>bcQueue := bcQueue w @ [(key, delay)]\<rparr>)
      else (Some (Err (''unable to requeue. Reason: Backup invoker '' @ tm_APIVersion (TypeMeta invoker)
                        @ ''  '' @ tm_Kind (TypeMeta invoker) @ '' is not supported'')), w))"

subsection \<open>The reconciliation pass\<close>

text \<open>
  \<open>applyBackupInvokerReconciliationLogic\<close> is one function in the source. It is
  given here in its four parts: the deletion branch, the repository and secret checks of
  the default driver, the loop over the targets, and the function itself, which chains
  them. A part that returns from the function yields \<open>Inl\<close> of the outcome; a part that
  lets the function go on yields \<open>Inr\<close>.
\<close>

text \<open>The loop over the targets in the deletion branch; it returns at the first failure.\<close>

fun deleteSidecars ::
  "Env \<Rightarrow> BackupInvoker \<Rightarrow> BackupInvokerTargetInfo list \<Rightarrow> World \<Rightarrow> error \<times> World" where
  "deleteSidecars env invoker [] w = (None, w)"
| "deleteSidecars env invoker (targetInfo # rest) w =
     (case Target targetInfo of
        None \<Rightarrow> deleteSidecars env invoker rest w
      | Some target \<Rightarrow>
          (case EnsureV1beta1SidecarDeleted env (Ref target) (om_Namespace (ObjectMeta invoker)) w of
             (Some e, w1) \<Rightarrow> handleWorkloadControllerTriggerFailure env (ObjectRef invoker) (Some e) w1
           | (None, w1) \<Rightarrow> deleteSidecars env invoker rest w1))"

text \<open>
  The body of \<open>if core_util.HasFinalizer(...)\<close>: sidecar removal for the targets, the
  CronJob, the ClusterRoleBindings, and then the finalizer.
\<close>

definition finalizeInvoker :: "Env \<Rightarrow> BackupInvoker \<Rightarrow> World \<Rightarrow> error \<times> World" where
  "finalizeInvoker env invoker w =
     (case deleteSidecars env invoker (TargetsInfo invoker) w of
        (Some e, w1) \<Rightarrow> (Some e, w1)
      | (None, w1) \<Rightarrow>
     (case EnsureBackupTriggeringCronJobDeleted env invoker w1 of
        (Some e, w2) \<Rightarrow> (Some e, w2)
      | (None, w2) \<Rightarrow>
     (case EnsureClusterRoleBindingDeleted_err env of
        Some e \<Rightarrow> (Some e, w2)
      | None \<Rightarrow> RemoveFinalizer env w2)))"

text \<open>
  The block guarded by \<open>inv.Driver == "" || inv.Driver == api_v1beta1.ResticSnapshotter\<close>.
  In the branches of a failed Secret lookup the code reads \<open>secret.Namespace\<close> and
  \<open>secret.Name\<close> from the pointer the failed call returned.
\<close>

definition checkRepositoryAndSecret ::
  "Env \<Rightarrow> BackupInvoker \<Rightarrow> string \<Rightarrow> World \<Rightarrow> (outcome + unit) \<times> World" where
  "checkRepositoryAndSecret env invoker key w =
     (case Repositories_Get env (om_Namespace (ObjectMeta invoker)) (inv_Repository invoker) of
        GetErr p err \<Rightarrow>
          (if IsNotFound (Some err) then
             (case SetCondition env (RepositoryFound, None) ConditionFalse w of
                (Some err2, w1) \<Rightarrow> (Inl (Return (Some err2)), w1)
              | (None, w1) \<Rightarrow>
                  (let (r, w2) = requeueInvoker invoker key (5 * Second) w1 in (Inl (Return r), w2)))
           else
             (let (err2, w1) = SetCondition env (RepositoryFound, None) ConditionUnknown w
              in (Inl (Return (NewAggregate [Some err, err2])), w1)))
      | GetOk repository \<Rightarrow>
     (case SetCondition env (RepositoryFound, None) ConditionTrue w of
        (Some e, w1) \<Rightarrow> (Inl (Return (Some e)), w1)
      | (None, w1) \<Rightarrow>
     (case Secrets_Get env (repo_Namespace repository) (StorageSecretName repository) of
        GetErr p err \<Rightarrow>
          (case p of
             None \<Rightarrow> (Inl Panic, w1)
           | Some secret \<Rightarrow>
               (if IsNotFound (Some err) then
                  (case SetCondition env (BackendSecretFound, None) ConditionFalse w1 of
                     (Some err2, w2) \<Rightarrow> (Inl (Return (Some err2)), w2)
                   | (None, w2) \<Rightarrow>
                       (let (r, w3) = requeueInvoker invoker key (5 * Second) w2
                        in (Inl (Return r), w3)))
                else
                  (let (err2, w2) = SetCondition env (BackendSecretFound, None) ConditionUnknown w1
                   in (Inl (Return (NewAggregate [Some err, err2])), w2))))
      | GetOk secret \<Rightarrow>
          (case SetCondition env (BackendSecretFound, None) ConditionTrue w1 of
             (Some e, w2) \<Rightarrow> (Inl (Return (Some e)), w2)
           | (None, w2) \<Rightarrow> (Inr (), w2)))))"

text \<open>
  The body of the loop over \<open>inv.TargetsInfo\<close> for one target, with the flag
  \<open>someTargetMissing\<close> as it stands before and after.
\<close>

definition targetStep ::
  "Env \<Rightarrow> BackupInvoker \<Rightarrow> BackupInvokerTargetInfo \<Rightarrow> bool \<Rightarrow> World \<Rightarrow> (outcome + bool) \<times> World" where
  "targetStep env invoker targetInfo someTargetMissing w =
     (case Target targetInfo of
        None \<Rightarrow> (Inr someTargetMissing, w)
      | Some target \<Rightarrow>
          (let tref = Ref target
           in case IsTargetExist env tref (om_Namespace (ObjectMeta invoker)) of
                (targetExist, Some err) \<Rightarrow>
                  (let (cerr, w1) = SetCondition env (BackupTargetFound, Some tref) ConditionUnknown w
                   in (Inl (Return (NewAggregate [Some err, cerr])), w1))
              | (targetExist, None) \<Rightarrow>
                  (if \<not> targetExist then
                     (case SetCondition env (BackupTargetFound, Some tref) ConditionFalse w of
                        (Some e, w1) \<Rightarrow> (Inl (Return (Some e)), w1)
                      | (None, w1) \<Rightarrow> (Inr True, w1))
                   else
                     (case SetCondition env (BackupTargetFound, Some tref) ConditionTrue w of
                        (Some e, w1) \<Rightarrow> (Inl (Return (Some e)), w1)
                      | (None, w1) \<Rightarrow>
                          (if (Driver invoker = [] \<or> Driver invoker = ResticSnapshotter) \<and>
                              BackupModel env (tr_Kind tref) = ModelSidecar
                           then
                             (case EnsureV1beta1Sidecar env tref (om_Namespace (ObjectMeta invoker)) w1 of
                                (Some e, w2) \<Rightarrow>
                                  (let (r, w3) = handleWorkloadControllerTriggerFailure env
                                                   (ObjectRef invoker) (Some e) w2
                                   in (Inl (Return r), w3))
                              | (None, w2) \<Rightarrow> (Inr someTargetMissing, w2))
                           else (Inr someTargetMissing, w1))))))"

fun targetsLoop ::
  "Env \<Rightarrow> BackupInvoker \<Rightarrow> BackupInvokerTargetInfo list \<Rightarrow> bool \<Rightarrow> World \<Rightarrow> (outcome + bool) \<times> World" where
  "targetsLoop env invoker [] someTargetMissing w = (Inr someTargetMissing, w)"
| "targetsLoop env invoker (targetInfo # rest) someTargetMissing w =
     (case targetStep env invoker targetInfo someTargetMissing w of
        (Inl out, w1) \<Rightarrow> (Inl out, w1)
      | (Inr someTargetMissing', w1) \<Rightarrow> targetsLoop env invoker rest someTargetMissing' w1)"

text \<open>
  What follows the loop: the requeue when a target is missing, otherwise the CronJob and
  its condition.
\<close>

definition afterTargets :: "Env \<Rightarrow> BackupInvoker \<Rightarrow> string \<Rightarrow> bool \<Rightarrow> World \<Rightarrow> error \<times> World" where
  "afterTargets env invoker key someTargetMissing w =
     (if someTargetMissing then requeueInvoker invoker key (5 * Second) w
      else
        (case EnsureBackupTriggeringCronJob env invoker w of
           (Some err, w1) \<Rightarrow>
             (let (cerr, w2) = SetCondition env (CronJobCreated, None) ConditionFalse w1
              in handleCronJobCreationFailure env (ObjectRef invoker) (NewAggregate [Some err, cerr]) w2)
         | (None, w1) \<Rightarrow> SetCondition env (CronJobCreated, None) ConditionTrue w1))"

definition applyBackupInvokerReconciliationLogic ::
  "Env \<Rightarrow> BackupInvoker \<Rightarrow> string \<Rightarrow> World \<Rightarrow> outcome \<times> World" where
  "applyBackupInvokerReconciliationLogic env invoker key w =
     (if DeletionTimestamp (ObjectMeta invoker) \<noteq> None then
        (if HasFinalizer (ObjectMeta invoker) StashKey
         then (let (r, w1) = finalizeInvoker env invoker w in (Return r, w1))
         else (Return None, w))
      else
        (case AddFinalizer env w of
           (Some err, w1) \<Rightarrow> (Return (Some err), w1)
         | (None, w1) \<Rightarrow>
        (case (if Driver invoker = [] \<or> Driver invoker = ResticSnapshotter
               then checkRepositoryAndSecret env invoker key w1 else (Inr (), w1)) of
           (Inl out, w2) \<Rightarrow> (out, w2)
         | (Inr u, w2) \<Rightarrow>
        (case targetsLoop env invoker (TargetsInfo invoker) False w2 of
           (Inl out, w3) \<Rightarrow> (out, w3)
         | (Inr someTargetMissing, w3) \<Rightarrow>
             (let (r, w4) = afterTargets env invoker key someTargetMissing w3
              in (Return r, w4))))))"

text \<open>
  The next pass reads the invoker object again; its finalizers are then those stored by
  the passes before.
\<close>

definition reread :: "World \<Rightarrow> BackupInvoker \<Rightarrow> BackupInvoker" where
  "reread w invoker = invoker\<lparr>ObjectMeta := (ObjectMeta invoker)\<lparr>Finalizers := stored_Finalizers w\<rparr>\<rparr>"

subsection \<open>Predicates on the targets of an invoker\<close>

text \<open>The references of the targets that are not nil, in the order of the list.\<close>

definition targetRefs :: "BackupInvokerTargetInfo list \<Rightarrow> TargetRef list" where
  "targetRefs targets = List.map_filter (\<lambda>targetInfo. map_option Ref (Target targetInfo)) targets"

text \<open>
  The error that notifying the workload controller of a target returns. It depends on
  the listers and the key function only, not on the world (lemma
  \<open>sendEventToWorkloadQueue_error\<close> below).
\<close>

definition notificationError :: "Env \<Rightarrow> TargetRef \<Rightarrow> string \<Rightarrow> error" where
  "notificationError env targetRef namespace =
     fst (sendEventToWorkloadQueue env (tr_Kind targetRef) namespace (tr_Name targetRef) emptyWorld)"

text \<open>
  A target is missing when its existence lookup returns false without an error. A
  target is settled when the pass gets through it without returning: its lookup returns
  no error, the write of the condition for what the lookup found succeeds and, where the
  target exists and follows the sidecar model under the default driver, the notification
  of its workload controller returns no error.
\<close>

definition targetMissing :: "Env \<Rightarrow> BackupInvoker \<Rightarrow> TargetRef \<Rightarrow> bool" where
  "targetMissing env invoker tref \<longleftrightarrow>
     IsTargetExist env tref (om_Namespace (ObjectMeta invoker)) = (False, None)"

definition targetStatus :: "Env \<Rightarrow> BackupInvoker \<Rightarrow> TargetRef \<Rightarrow> ConditionStatus" where
  "targetStatus env invoker tref =
     (if fst (IsTargetExist env tref (om_Namespace (ObjectMeta invoker)))
      then ConditionTrue else ConditionFalse)"

definition targetSettled :: "Env \<Rightarrow> BackupInvoker \<Rightarrow> TargetRef \<Rightarrow> bool" where
  "targetSettled env invoker tref \<longleftrightarrow>
     snd (IsTargetExist env tref (om_Namespace (ObjectMeta invoker))) = None \<and>
     SetCondition_err env (BackupTargetFound, Some tref) (targetStatus env invoker tref) = None \<and>
     (if fst (IsTargetExist env tref (om_Namespace (ObjectMeta invoker))) \<and>
         (Driver invoker = [] \<or> Driver invoker = ResticSnapshotter) \<and>
         BackupModel env (tr_Kind tref) = ModelSidecar
      then notificationError env tref (om_Namespace (ObjectMeta invoker)) = None
      else True)"

section \<open>The sidecar backup scheduler (package backup)\<close>

subsection \<open>State and collaborators\<close>

record Restic =
  restic_Namespace :: string
  restic_Name :: string
  restic_Schedule :: string
  restic_StorageSecretName :: string

text \<open>
  The two functions that \<open>configureScheduler\<close> registers with the cron library: the
  closure around \<open>runOnceForScheduler\<close>, which captures the Restic, and the closure
  around \<open>checkOnceForScheduler\<close>.
\<close>

datatype CronAction = BackupAction Restic | CheckAction

record LeaderElectionConfig =
  Lock :: string
  Identity :: string
  LeaseDuration :: Duration
  RenewDeadline :: Duration
  RetryPeriod :: Duration

text \<open>The goroutines that the controller starts with \<open>go\<close>.\<close>

datatype Goroutine = RunScheduler | RunLeaderElection LeaderElectionConfig

text \<open>The calls of collaborators that do the work of a backup or of a check.\<close>

datatype Call =
    CallResticsGet
  | CallSecretsGet string
  | CallSetupEnv
  | CallInitRepositoryIfAbsent
  | CallCreateRepositoryCrd
  | CallRunResticBackup
  | CallRepositoriesGet
  | CallCheck
  | CallRecordEvent string

text \<open>
  Modelled from the spec: the constructor of the controller is outside the files at
  hand; \<open>c.locked\<close> is the single-slot token of the spec, a channel of capacity one, so
  its content is one bit (\<open>True\<close>: the token is in the channel).

  The state of a \<open>Controller\<close> of package \<open>backup\<close>: the run lock \<open>c.locked\<close>, the
  entries of \<open>c.cron\<close> with its running flag, the goroutines started, the calls made,
  and whether the watcher and the queue were started.
\<close>

record Controller =
  locked :: bool
  cronEntries :: "(string \<times> CronAction) list"
  cronRunning :: bool
  goroutines :: "Goroutine list"
  calls :: "Call list"
  resticWatcher :: bool
  queueRunning :: bool

record SchedEnv =
  Workload_Kind :: string
  PodName :: string
  GetConfigmapLockName :: string
  resourcelock_New_err :: error
  setup_result :: "Restic option \<times> error"
  cacheSynced :: bool
  cron_AddFunc_err :: "string \<Rightarrow> error"
  Restics_Get :: "Restic GetResult"
  sched_Secrets_Get :: "string \<Rightarrow> string \<Rightarrow> Secret GetResult"
  SetupEnv_result :: "string \<times> error"
  InitRepositoryIfAbsent_err :: error
  createRepositoryCrdIfNotExist_result :: "Repository GetResult"
  runResticBackup_err :: error
  sched_Repositories_Get :: "Repository GetResult"
  Check_err :: error
  GetReference_err :: error

subsection \<open>The run lock\<close>

text \<open>
  \<open>select { case <-c.locked: ... default: ... }\<close> takes the token if it is there and
  otherwise runs the default branch at once (\<open>None\<close>). \<open>c.locked <- struct{}{}\<close> puts
  the token back; on a full channel the send blocks forever (\<open>None\<close>).
\<close>

definition tryReceive :: "Controller \<Rightarrow> Controller option" where
  "tryReceive s = (if locked s then Some (s\<lparr>locked := False\<rparr>) else None)"

definition send :: "Controller \<Rightarrow> Controller option" where
  "send s = (if locked s then None else Some (s\<lparr>locked := True\<rparr>))"

definition call :: "Call \<Rightarrow> Controller \<Rightarrow> Controller" where
  "call x s = s\<lparr>calls := calls s @ [x]\<rparr>"

subsection \<open>The backup action\<close>

text \<open>The body of \<open>runOnceForScheduler\<close> after the token was taken.\<close>

definition runOnceLocked :: "SchedEnv \<Rightarrow> Controller \<Rightarrow> error \<times> Controller" where
  "runOnceLocked env s =
     (let s1 = call CallResticsGet s
      in case Restics_Get env of
           GetErr p err \<Rightarrow> (if IsNotFound (Some err) then (None, s1) else (Some err, s1))
         | GetOk restic \<Rightarrow>
      (if restic_StorageSecretName restic = [] then
         (Some (Err ''missing repository secret name''), s1)
       else
      (let s2 = call (CallSecretsGet (restic_StorageSecretName restic)) s1
       in case sched_Secrets_Get env (restic_Namespace restic) (restic_StorageSecretName restic) of
            GetErr p err \<Rightarrow> (Some err, s2)
          | GetOk secret \<Rightarrow>
      (let s3 = call CallSetupEnv s2
       in case SetupEnv_result env of
            (prefix, Some err) \<Rightarrow> (Some err, s3)
          | (prefix, None) \<Rightarrow>
      (let s4 = call CallInitRepositoryIfAbsent s3
       in case InitRepositoryIfAbsent_err env of
            Some err \<Rightarrow> (Some err, s4)
          | None \<Rightarrow>
      (let s5 = call CallCreateRepositoryCrd s4
       in case createRepositoryCrdIfNotExist_result env of
            GetErr p err \<Rightarrow> (Some err, s5)
          | GetOk repository \<Rightarrow> (runResticBackup_err env, call CallRunResticBackup s5)))))))"

text \<open>
  \<open>runOnceForScheduler\<close>: \<open>None\<close> stands for a call that never returns because its
  deferred send blocks.
\<close>

definition runOnceForScheduler :: "SchedEnv \<Rightarrow> Controller \<Rightarrow> (error \<times> Controller) option" where
  "runOnceForScheduler env s =
     (case tryReceive s of
        None \<Rightarrow> Some (None, s)
      | Some s1 \<Rightarrow>
          (let (r, s2) = runOnceLocked env s1
           in case send s2 of
                None \<Rightarrow> None
              | Some s3 \<Rightarrow> Some (r, s3)))"

subsection \<open>The check action\<close>

text \<open>The part of \<open>checkOnceForScheduler\<close> that runs with the token held.\<close>

definition checkLocked :: "SchedEnv \<Rightarrow> Repository \<Rightarrow> Controller \<Rightarrow> error \<times> Controller" where
  "checkLocked env repository s =
     (let s1 = call CallCheck s
      in case Check_err env of
           None \<Rightarrow> (None, s1)
         | Some err \<Rightarrow>
             (case GetReference_err env of
                None \<Rightarrow> (Some err, call (CallRecordEvent ''EventReasonFailedToCheck'') s1)
              | Some rerr \<Rightarrow> (Some err, s1)))"

definition checkOnceForScheduler :: "SchedEnv \<Rightarrow> Controller \<Rightarrow> (error \<times> Controller) option" where
  "checkOnceForScheduler env s =
     (let s0 = call CallRepositoriesGet s
      in case sched_Repositories_Get env of
           GetErr p err \<Rightarrow> (if IsNotFound (Some err) then Some (None, s0) else Some (Some err, s0))
         | GetOk repository \<Rightarrow>
             (case tryReceive s0 of
                None \<Rightarrow> Some (None, s0)
              | Some s1 \<Rightarrow>
                  (let (r, s2) = checkLocked env repository s1
                   in case send s2 of
                        None \<Rightarrow> None
                      | Some s3 \<Rightarrow> Some (r, s3))))"

subsection \<open>Registering and firing the actions\<close>

text \<open>
  \<open>configureScheduler\<close> removes the entries of the cron, registers the backup action
  under the schedule of the Restic and then the check action under a constant
  expression. \<open>AddFunc\<close> fails when the cron library rejects the expression.
\<close>

definition checkSchedule :: string where
  "checkSchedule = ''0 0 */3 * *''"

definition configureScheduler :: "SchedEnv \<Rightarrow> Restic \<Rightarrow> Controller \<Rightarrow> error \<times> Controller" where
  "configureScheduler env r s =
     (let s1 = s\<lparr>cronEntries := []\<rparr>
      in case cron_AddFunc_err env (restic_Schedule r) of
           Some err \<Rightarrow> (Some err, s1)
         | None \<Rightarrow>
             (let s2 = s1\<lparr>cronEntries := cronEntries s1 @ [(restic_Schedule r, BackupAction r)]\<rparr>
              in case cron_AddFunc_err env checkSchedule of
                   Some err \<Rightarrow> (Some err, s2)
                 | None \<Rightarrow>
                     (None, s2\<lparr>cronEntries := cronEntries s2 @ [(checkSchedule, CheckAction)]\<rparr>)))"

text \<open>
  What the cron runs when an entry is due: the registered closure. The closures return
  nothing; an error of the backup is recorded as an event on the Restic when a reference
  to it can be built, and is logged.
\<close>

fun fire :: "SchedEnv \<Rightarrow> CronAction \<Rightarrow> Controller \<Rightarrow> Controller option" where
  "fire env (BackupAction r) s =
     (case runOnceForScheduler env s of
        None \<Rightarrow> None
      | Some (None, s1) \<Rightarrow> Some s1
      | Some (Some err, s1) \<Rightarrow>
          (case GetReference_err env of
             None \<Rightarrow> Some (call (CallRecordEvent ''EventReasonFailedCronJob'') s1)
           | Some rerr \<Rightarrow> Some s1))"
| "fire env CheckAction s =
     (case checkOnceForScheduler env s of
        None \<Rightarrow> None
      | Some (err2, s1) \<Rightarrow> Some s1)"

subsection \<open>Starting the scheduler\<close>

text \<open>
  \<open>runScheduler\<close> starts the cron, puts the token into the run lock, starts the
  informers and, once their caches are in sync, the queue; then it waits for the stop
  channel. The result is the state in which it waits or has returned; \<open>None\<close> is a
  send that blocks on a full run lock.
\<close>

definition runScheduler :: "SchedEnv \<Rightarrow> Controller \<Rightarrow> Controller option" where
  "runScheduler env s =
     (case send (s\<lparr>cronRunning := True\<rparr>) of
        None \<Rightarrow> None
      | Some s1 \<Rightarrow> (if cacheSynced env then Some (s1\<lparr>queueRunning := True\<rparr>) else Some s1))"

definition setupAndRunScheduler :: "SchedEnv \<Rightarrow> Controller \<Rightarrow> error \<times> Controller" where
  "setupAndRunScheduler env s =
     (case setup_result env of
        (restic, Some err) \<Rightarrow>
          (let err' = Errorf ''failed to setup backup. Error: '' err
           in case restic of
                None \<Rightarrow> (Some err', s)
              | Some r \<Rightarrow>
                  (case GetReference_err env of
                     None \<Rightarrow> (Some err', call (CallRecordEvent ''EventReasonFailedSetup'') s)
                   | Some rerr \<Rightarrow> (Some err', s)))
      | (restic, None) \<Rightarrow>
          (None, s\<lparr>resticWatcher := True, goroutines := goroutines s @ [RunScheduler]\<rparr>))"

text \<open>
  \<open>electLeader\<close> builds the resource lock and starts a goroutine that runs the leader
  election with the lease parameters written in the source. The election calls
  \<open>OnStartedLeading\<close> when this replica becomes the leader; the error of
  \<open>setupAndRunScheduler\<close> is logged there.
\<close>

definition electLeader :: "SchedEnv \<Rightarrow> Controller \<Rightarrow> error \<times> Controller" where
  "electLeader env s =
     (case resourcelock_New_err env of
        Some err \<Rightarrow> (Some (Errorf ''error during leader election: '' err), s)
      | None \<Rightarrow>
          (None, s\<lparr>goroutines := goroutines s @
             [RunLeaderElection
                \<lparr>Lock = GetConfigmapLockName env, Identity = PodName env,
                 LeaseDuration = 15 * Second, RenewDeadline = 10 * Second,
                 RetryPeriod = 2 * Second\<rparr>]\<rparr>))"

definition OnStartedLeading :: "SchedEnv \<Rightarrow> Controller \<Rightarrow> Controller" where
  "OnStartedLeading env s = snd (setupAndRunScheduler env s)"

text \<open>
  \<open>BackupScheduler\<close> returns only with an error: after a successful start it waits in
  \<open>select {}\<close> forever. The first component is the error it returns, \<open>None\<close> when it
  does not return.
\<close>

definition BackupScheduler :: "SchedEnv \<Rightarrow> Controller \<Rightarrow> err option \<times> Controller" where
  "BackupScheduler env s =
     (if Workload_Kind env = KindDeployment \<or> Workload_Kind env = KindReplicaSet \<or>
         Workload_Kind env = KindReplicationController
      then electLeader env s
      else setupAndRunScheduler env s)"

text \<open>
  What a started goroutine does when it gets to run; for the leader election, when this
  replica wins the lease.
\<close>

fun runGoroutine :: "SchedEnv \<Rightarrow> Goroutine \<Rightarrow> Controller \<Rightarrow> Controller option" where
  "runGoroutine env RunScheduler s = runScheduler env s"
| "runGoroutine env (RunLeaderElection config) s = Some (OnStartedLeading env s)"

section \<open>DaemonSets with the sidecar (test framework)\<close>

text \<open>
  The condition that \<open>WaitUntilDaemonSetReadyWithSidecar\<close> polls: the DaemonSet is
  read, its pods are listed once as many pods are ready as are scheduled, and every pod
  must have a container with the name of the Stash sidecar. A pod is given by the names
  of its containers.
\<close>

definition StashContainer :: string where "StashContainer = ''stash''"

record DaemonSetStatus =
  DesiredNumberScheduled :: int
  NumberReady :: int

text \<open>The inner loop over the containers of a pod, with the flag \<open>hasSidecar\<close>.\<close>

fun containersLoop :: "string list \<Rightarrow> bool \<Rightarrow> bool" where
  "containersLoop [] hasSidecar = hasSidecar"
| "containersLoop (c # cs) hasSidecar =
     containersLoop cs (if c = StashContainer then True else hasSidecar)"

text \<open>The loop over the pods; it returns false at the first pod without the sidecar.\<close>

fun podsLoop :: "string list list \<Rightarrow> bool \<times> error" where
  "podsLoop [] = (True, None)"
| "podsLoop (pod # pods) =
     (if \<not> containersLoop pod False then (False, None) else podsLoop pods)"

definition daemonSetReadyWithSidecar ::
  "DaemonSetStatus GetResult \<Rightarrow> string list list \<times> error \<Rightarrow> bool \<times> error" where
  "daemonSetReadyWithSidecar get allPods =
     (case get of
        GetErr p err \<Rightarrow> (False, None)
      | GetOk status \<Rightarrow>
          (if DesiredNumberScheduled status = NumberReady status then
             (case allPods of
                (pods, Some err) \<Rightarrow> (False, Some err)
              | (pods, None) \<Rightarrow> podsLoop pods)
           else (False, None)))"

section \<open>Sample inputs\<close>

text \<open>
  Three restore rules: a default rule (no target hosts), a rule for the hosts
  \<open>web-0\<close> and \<open>web-1\<close> that restores from another source host, and a rule for
  \<open>db-0\<close>.
\<close>

definition ruleDefault :: Rule where
  "ruleDefault =
     \<lparr>SourceHost = [], TargetHosts = [], Snapshots = [], Paths = [''/data''],
      Exclude = [], Include = []\<rparr>"

definition ruleWeb :: Rule where
  "ruleWeb =
     \<lparr>SourceHost = ''web-old'', TargetHosts = [''web-0'', ''web-1''], Snapshots = [''abc123''],
      Paths = [''/srv/www''], Exclude = [''*.tmp''], Include = []\<rparr>"

definition ruleDb :: Rule where
  "ruleDb =
     \<lparr>SourceHost = [], TargetHosts = [''db-0''], Snapshots = [], Paths = [''/var/lib/db''],
      Exclude = [], Include = []\<rparr>"

definition ruleDefault2 :: Rule where
  "ruleDefault2 =
     \<lparr>SourceHost = ''archive'', TargetHosts = [], Snapshots = [], Paths = [''/backup''],
      Exclude = [], Include = []\<rparr>"






text \<open>
  A BackupConfiguration \<open>demo/bc\<close> with the default driver, paused, with two targets:
  the Deployment \<open>web\<close> and the StatefulSet \<open>db\<close>.
\<close>

definition targetWeb :: TargetRef where
  "targetWeb = \<lparr>tr_APIVersion = ''apps/v1'', tr_Kind = ''Deployment'', tr_Name = ''web''\<rparr>"

definition targetDb :: TargetRef where
  "targetDb = \<lparr>tr_APIVersion = ''apps/v1'', tr_Kind = ''StatefulSet'', tr_Name = ''db''\<rparr>"

definition invokerSample :: BackupInvoker where
  "invokerSample =
     \<lparr>TypeMeta = \<lparr>tm_Kind = ''BackupConfiguration'', tm_APIVersion = ''stash.appscode.com/v1beta1''\<rparr>,
      ObjectMeta = \<lparr>om_Name = ''bc'', om_Namespace = ''demo'', DeletionTimestamp = None,
                    Finalizers = []\<rparr>,
      Driver = [], inv_Repository = ''repo'', Schedule = ''*/5 * * * *'', Paused = True,
      RuntimeSettings = \<lparr>rs_Pod = None, rs_Container = None\<rparr>,
      TargetsInfo = [\<lparr>Target = Some \<lparr>Ref = targetWeb\<rparr>\<rparr>, \<lparr>Target = Some \<lparr>Ref = targetDb\<rparr>\<rparr>],
      OwnerRef = \<lparr>ow_Kind = ''BackupConfiguration'', ow_Name = ''bc'', ow_UID = ''uid-1''\<rparr>,
      ObjectRef = Some \<lparr>or_Kind = ''BackupConfiguration'', or_Namespace = ''demo'',
                       or_Name = ''bc''\<rparr>\<rparr>"

text \<open>The same invoker once its deletion was requested, with the finalizer on it.\<close>

definition invokerDeleting :: BackupInvoker where
  "invokerDeleting =
     invokerSample\<lparr>ObjectMeta := \<lparr>om_Name = ''bc'', om_Namespace = ''demo'',
                                   DeletionTimestamp = Some 1700000000,
                                   Finalizers = [''stash.appscode.com'']\<rparr>\<rparr>"

definition worldDeleting :: World where
  "worldDeleting = emptyWorld\<lparr>stored_Finalizers := [''stash.appscode.com'']\<rparr>"

text \<open>
  A cluster in which every call succeeds: the repository \<open>repo\<close> and its secret
  \<open>repo-secret\<close> exist, the workload \<open>web\<close> exists and \<open>db\<close> does not. A failed
  lookup returns an empty object with its not-found error.
\<close>

definition envSample :: Env where
  "envSample =
     \<lparr>AddFinalizer_err = None, RemoveFinalizer_err = None,
      Repositories_Get = (\<lambda>ns name.
         if name = ''repo''
         then GetOk \<lparr>repo_Namespace = ns, repo_Name = name, StorageSecretName = ''repo-secret''\<rparr>
         else GetErr (Some \<lparr>repo_Namespace = [], repo_Name = [], StorageSecretName = []\<rparr>)
                (NotFound name)),
      Secrets_Get = (\<lambda>ns name.
         if name = ''repo-secret'' then GetOk \<lparr>sec_Namespace = ns, sec_Name = name\<rparr>
         else GetErr (Some \<lparr>sec_Namespace = [], sec_Name = []\<rparr>) (NotFound name)),
      SetCondition_err = (\<lambda>key status. None),
      IsTargetExist = (\<lambda>tref ns. (tr_Name tref = ''web'', None)),
      BackupModel = (\<lambda>kind. if kind = ''PersistentVolumeClaim'' then ''job'' else ''sidecar''),
      Lister_Get = (\<lambda>kind ns name. if name = ''web'' \<or> name = ''db'' then Some (ns, name) else None),
      MetaNamespaceKeyFunc = (\<lambda>r. (fst r @ ''/'' @ snd r, None)),
      ocClient_set = False, dcLister_set = False, CreateEvent_err = None,
      CronJobs_Get_err = None, CronJobs_Create_err = None, CronJobs_Patch_err = None,
      EnsureOwnerReference = (\<lambda>refs owner. if owner \<in> set refs then refs else refs @ [owner]),
      UpsertContainer = (\<lambda>cs c. if c \<in> set cs then cs else cs @ [c]),
      EnsureClusterRoleBindingDeleted_err = None, CreateOrPatchServiceAccount_err = None,
      EnsureCronJobRBAC_err = None, ImagePullSecrets_set = False,
      ensureImagePullSecrets_result = ([], None),
      ValidCronJobNameWithPrefix = (\<lambda>prefix name. prefix @ ''-'' @ name),
      PrefixStashTrigger = ''stash-trigger'', StashCronJobContainer = ''stash-trigger'',
      ContainerImage = ''stash:latest''\<rparr>"

text \<open>
  Variants of that cluster: the lookup of the workload \<open>db\<close> fails while \<open>web\<close> is
  missing; writing a condition fails; and lookups of the repository or of the secret
  fail with an error that is not not-found.
\<close>

definition envLookupError :: Env where
  "envLookupError =
     envSample\<lparr>IsTargetExist := (\<lambda>tref ns.
        if tr_Name tref = ''db'' then (False, Some (Err ''timeout'')) else (False, None))\<rparr>"

definition envTargetWriteFails :: Env where
  "envTargetWriteFails =
     envSample\<lparr>SetCondition_err := (\<lambda>key status.
        if fst key = BackupTargetFound then Some (Err ''conflict'') else None)\<rparr>"

definition envWriteFails :: Env where
  "envWriteFails = envSample\<lparr>SetCondition_err := (\<lambda>key status. Some (Err ''conflict''))\<rparr>"

definition envRepositoryError :: Env where
  "envRepositoryError =
     envSample\<lparr>Repositories_Get := (\<lambda>ns name. GetErr None (Err ''connection refused''))\<rparr>"

definition envSecretMissing :: Env where
  "envSecretMissing =
     envSample\<lparr>Secrets_Get := (\<lambda>ns name.
        GetErr (Some \<lparr>sec_Namespace = [], sec_Name = []\<rparr>) (NotFound name))\<rparr>"

definition envSecretError :: Env where
  "envSecretError =
     envSample\<lparr>Secrets_Get := (\<lambda>ns name.
        GetErr (Some \<lparr>sec_Namespace = [], sec_Name = []\<rparr>) (Err ''forbidden''))\<rparr>"

text \<open>The invoker with a repository that does not exist, and as a BackupBatch.\<close>

definition invokerNoRepository :: BackupInvoker where
  "invokerNoRepository = invokerSample\<lparr>inv_Repository := ''nope''\<rparr>"

definition invokerBatch :: BackupInvoker where
  "invokerBatch =
     invokerSample\<lparr>TypeMeta := \<lparr>tm_Kind = ''BackupBatch'',
                                 tm_APIVersion = ''stash.appscode.com/v1beta1''\<rparr>\<rparr>"

text \<open>
  Clusters for the deletion of the invoker: the deletion of the ClusterRoleBindings
  fails; the queue key of a workload cannot be computed.
\<close>

definition envBindingsFail :: Env where
  "envBindingsFail = envSample\<lparr>EnsureClusterRoleBindingDeleted_err := Some (Err ''forbidden'')\<rparr>"

definition envKeyFails :: Env where
  "envKeyFails =
     envSample\<lparr>MetaNamespaceKeyFunc := (\<lambda>r. ([], Some (Err ''object has no meta'')))\<rparr>"

text \<open>
  A sidecar controller in a pod of the Deployment \<open>web\<close>: every collaborator succeeds.
  The controller is idle (the token is in the run lock), busy (a run holds the token), or
  new (nothing started; the run lock is still empty).
\<close>

definition resticSample :: Restic where
  "resticSample =
     \<lparr>restic_Namespace = ''demo'', restic_Name = ''restic'', restic_Schedule = ''@every 1h'',
      restic_StorageSecretName = ''repo-secret''\<rparr>"

definition repositorySample :: Repository where
  "repositorySample =
     \<lparr>repo_Namespace = ''demo'', repo_Name = ''deployment.web'', StorageSecretName = ''repo-secret''\<rparr>"

definition schedEnvSample :: SchedEnv where
  "schedEnvSample =
     \<lparr>Workload_Kind = ''Deployment'', PodName = ''web-0'',
      GetConfigmapLockName = ''lock-deployment-web'', resourcelock_New_err = None,
      setup_result = (Some resticSample, None), cacheSynced = True,
      cron_AddFunc_err = (\<lambda>spec. if spec = [] then Some (Err ''empty spec string'') else None),
      Restics_Get = GetOk resticSample,
      sched_Secrets_Get = (\<lambda>ns name. GetOk \<lparr>sec_Namespace = ns, sec_Name = name\<rparr>),
      SetupEnv_result = (''prefix'', None), InitRepositoryIfAbsent_err = None,
      createRepositoryCrdIfNotExist_result = GetOk repositorySample,
      runResticBackup_err = None, sched_Repositories_Get = GetOk repositorySample,
      Check_err = None, GetReference_err = None\<rparr>"

definition controllerNew :: Controller where
  "controllerNew =
     \<lparr>locked = False, cronEntries = [], cronRunning = False, goroutines = [], calls = [],
      resticWatcher = False, queueRunning = False\<rparr>"

definition controllerIdle :: Controller where
  "controllerIdle =
     \<lparr>locked = True, cronEntries = [], cronRunning = True, goroutines = [], calls = [],
      resticWatcher = True, queueRunning = True\<rparr>"

definition controllerBusy :: Controller where
  "controllerBusy = controllerIdle\<lparr>locked := False\<rparr>"

text \<open>
  Variants: the backup fails; the check fails; the Repository object cannot be read, or
  does not exist; the workload is a StatefulSet.
\<close>

definition schedEnvBackupFails :: SchedEnv where
  "schedEnvBackupFails = schedEnvSample\<lparr>runResticBackup_err := Some (Err ''backup failed'')\<rparr>"

definition schedEnvCheckFails :: SchedEnv where
  "schedEnvCheckFails = schedEnvSample\<lparr>Check_err := Some (Err ''repository damaged'')\<rparr>"

definition schedEnvLookupFails :: SchedEnv where
  "schedEnvLookupFails =
     schedEnvSample\<lparr>sched_Repositories_Get := GetErr None (Err ''connection refused'')\<rparr>"

definition schedEnvNoRepository :: SchedEnv where
  "schedEnvNoRepository =
     schedEnvSample\<lparr>sched_Repositories_Get := GetErr None (NotFound ''deployment.web'')\<rparr>"

definition schedEnvStatefulSet :: SchedEnv where
  "schedEnvStatefulSet = schedEnvSample\<lparr>Workload_Kind := ''StatefulSet''\<rparr>"

text \<open>
  The controller in a pod of a DaemonSet that runs on two nodes; both pods are ready and
  carry the sidecar next to the container of the workload.
\<close>

definition schedEnvDaemonSet :: SchedEnv where
  "schedEnvDaemonSet = schedEnvSample\<lparr>Workload_Kind := ''DaemonSet''\<rparr>"

definition daemonSetTwoNodes :: DaemonSetStatus where
  "daemonSetTwoNodes = \<lparr>DesiredNumberScheduled = 2, NumberReady = 2\<rparr>"

definition daemonSetPods :: "string list list" where
  "daemonSetPods = [[''busybox'', ''stash''], [''busybox'', ''stash'']]"

section \<open>Properties of the restore rules\<close>

lemma restoreLoop_no_hostRule:
  "\<forall>r \<in> set rules. \<not> hostRule hostname r \<Longrightarrow>
   restoreLoop hostname rules acc =
     (case filter defaultRule rules of
        [] \<Rightarrow> acc
      | d # ds \<Rightarrow> ruleOptions hostname (last (d # ds)))"
proof (induction rules arbitrary: acc)
  case Nil
  then show ?case by simp
next
  case (Cons r rules)
  then have rest: "\<forall>r \<in> set rules. \<not> hostRule hostname r" and here: "\<not> hostRule hostname r"
    by simp_all
  show ?case
  proof (cases "TargetHosts r = []")
    case True
    then show ?thesis
      using Cons.IH [OF rest, of "ruleOptions hostname r"]
      by (simp add: defaultRule_def split: list.splits)
  next
    case False
    with here have "\<not> Contains (TargetHosts r) hostname"
      by (simp add: hostRule_def Contains_def)
    with False show ?thesis
      using Cons.IH [OF rest, of acc] by (simp add: defaultRule_def)
  qed
qed

lemma restoreLoop_first_hostRule:
  "\<forall>r \<in> set pre. \<not> hostRule hostname r \<Longrightarrow> hostRule hostname rule \<Longrightarrow>
   restoreLoop hostname (pre @ rule # post) acc = ruleOptions hostname rule"
proof (induction pre arbitrary: acc)
  case Nil
  then show ?case by (simp add: hostRule_def Contains_def)
next
  case (Cons r pre)
  then have here: "\<not> hostRule hostname r" by simp
  show ?case
  proof (cases "TargetHosts r = []")
    case True
    then show ?thesis using Cons by simp
  next
    case False
    with here have "\<not> Contains (TargetHosts r) hostname"
      by (simp add: hostRule_def Contains_def)
    with False show ?thesis using Cons by simp
  qed
qed

text \<open>
  Claim C2. For every hostname and rule list, \<open>RestoreOptionsForHost\<close> returns the
  options of the first rule whose non-empty target-host list contains the hostname,
  whatever rules follow it (none of them is evaluated: the result does not depend on
  \<open>post\<close>). A rule with an empty target-host list records its options and the loop goes
  on with the rest of the list, so a later rule whose non-empty target-host list contains
  the hostname overrides it.
\<close>

theorem RestoreOptionsForHost_first_host_rule:
  assumes pre: "\<forall>r \<in> set pre. \<not> hostRule hostname r"
    and rule: "hostRule hostname rule"
    and d: "defaultRule d"
  shows "RestoreOptionsForHost hostname (pre @ rule # post) = ruleOptions hostname rule \<and>
     RestoreOptionsForHost hostname (pre @ rule # post) =
       RestoreOptionsForHost hostname (pre @ [rule]) \<and>
     restoreLoop hostname (d # rest) acc = restoreLoop hostname rest (ruleOptions hostname d) \<and>
     RestoreOptionsForHost hostname (d # pre @ rule # post) = ruleOptions hostname rule"
proof (intro conjI)
  show "RestoreOptionsForHost hostname (pre @ rule # post) = ruleOptions hostname rule"
    unfolding RestoreOptionsForHost_def by (rule restoreLoop_first_hostRule [OF pre rule])
  show "RestoreOptionsForHost hostname (pre @ rule # post) =
          RestoreOptionsForHost hostname (pre @ [rule])"
    unfolding RestoreOptionsForHost_def
    using restoreLoop_first_hostRule [OF pre rule, of post]
      restoreLoop_first_hostRule [OF pre rule, of "[]"] by simp
  show "restoreLoop hostname (d # rest) acc = restoreLoop hostname rest (ruleOptions hostname d)"
    using d by (simp add: defaultRule_def)
  show "RestoreOptionsForHost hostname (d # pre @ rule # post) = ruleOptions hostname rule"
  proof -
    from d have "\<not> hostRule hostname d" by (simp add: defaultRule_def hostRule_def)
    with pre have "\<forall>r \<in> set (d # pre). \<not> hostRule hostname r" by simp
    from restoreLoop_first_hostRule [OF this rule]
    show ?thesis unfolding RestoreOptionsForHost_def by simp
  qed
qed

theorem RestoreOptionsForHost_first_host_rule_witness:
  "(RestoreOptionsForHost ''web-0'' ([ruleDb, ruleDefault] @ ruleWeb # [ruleDefault2]) =
      ruleOptions ''web-0'' ruleWeb \<and>
    RestoreOptionsForHost ''web-0'' ([ruleDb, ruleDefault] @ ruleWeb # [ruleDefault2]) =
      RestoreOptionsForHost ''web-0'' ([ruleDb, ruleDefault] @ [ruleWeb]) \<and>
    restoreLoop ''web-0'' (ruleDefault2 # [ruleWeb]) zeroRestoreOptions =
      restoreLoop ''web-0'' [ruleWeb] (ruleOptions ''web-0'' ruleDefault2) \<and>
    RestoreOptionsForHost ''web-0''
        (ruleDefault2 # [ruleDb, ruleDefault] @ ruleWeb # [ruleDefault2]) =
      ruleOptions ''web-0'' ruleWeb) \<and>
   ro_SourceHost
       (RestoreOptionsForHost ''web-0'' ([ruleDb, ruleDefault] @ ruleWeb # [ruleDefault2])) =
     ''web-old''"
proof -
  have pre: "\<forall>r \<in> set [ruleDb, ruleDefault]. \<not> hostRule ''web-0'' r"
    by (simp add: hostRule_def ruleDb_def ruleDefault_def)
  have rule: "hostRule ''web-0'' ruleWeb"
    by (simp add: hostRule_def ruleWeb_def)
  have d: "defaultRule ruleDefault2"
    by (simp add: defaultRule_def ruleDefault2_def)
  note t = RestoreOptionsForHost_first_host_rule
      [OF pre rule d, of "[ruleDefault2]" "[ruleWeb]" zeroRestoreOptions]
  have src: "ro_SourceHost (ruleOptions ''web-0'' ruleWeb) = ''web-old''"
    by (simp add: ruleOptions_def ruleWeb_def)
  have e: "ro_SourceHost
      (RestoreOptionsForHost ''web-0'' ([ruleDb, ruleDefault] @ ruleWeb # [ruleDefault2])) =
      ''web-old''"
    unfolding conjunct1 [OF t] by (rule src)
  show ?thesis by (rule conjI [OF t e])
qed

text \<open>
  Claim C10. When no rule has a non-empty target-host list containing the hostname,
  \<open>RestoreOptionsForHost\<close> returns the options of the last rule of the list whose
  target-host list is empty (a later such rule overwrites what an earlier one recorded),
  and the zero value of \<open>RestoreOptions\<close> when there is no such rule. The function has no
  error result.
\<close>

theorem RestoreOptionsForHost_last_default_rule:
  assumes "\<forall>r \<in> set rules. \<not> hostRule hostname r"
  shows "RestoreOptionsForHost hostname rules =
           (case filter defaultRule rules of
              [] \<Rightarrow> zeroRestoreOptions
            | d # ds \<Rightarrow> ruleOptions hostname (last (d # ds))) \<and>
         (filter defaultRule rules = [] \<longrightarrow>
            RestoreOptionsForHost hostname rules = zeroRestoreOptions) \<and>
         (filter defaultRule rules \<noteq> [] \<longrightarrow>
            RestoreOptionsForHost hostname rules =
              ruleOptions hostname (last (filter defaultRule rules)))"
  unfolding RestoreOptionsForHost_def
  using restoreLoop_no_hostRule [OF assms, of zeroRestoreOptions]
  by (simp split: list.splits)

theorem RestoreOptionsForHost_last_default_rule_witness:
  "RestoreOptionsForHost ''cache-0'' [ruleDefault, ruleWeb, ruleDefault2, ruleDb] =
     ruleOptions ''cache-0'' ruleDefault2 \<and>
   ro_SourceHost (ruleOptions ''cache-0'' ruleDefault2) = ''archive'' \<and>
   RestoreOptionsForHost ''cache-0'' [ruleWeb, ruleDb] = zeroRestoreOptions"
proof -
  have no_host: "\<forall>r \<in> set [ruleDefault, ruleWeb, ruleDefault2, ruleDb]. \<not> hostRule ''cache-0'' r"
    by (simp add: hostRule_def ruleDb_def ruleDefault_def ruleWeb_def ruleDefault2_def)
  have no_host': "\<forall>r \<in> set [ruleWeb, ruleDb]. \<not> hostRule ''cache-0'' r"
    by (simp add: hostRule_def ruleDb_def ruleWeb_def)
  have defaults: "filter defaultRule [ruleDefault, ruleWeb, ruleDefault2, ruleDb] =
      [ruleDefault, ruleDefault2]"
    by (simp add: defaultRule_def ruleDb_def ruleDefault_def ruleWeb_def ruleDefault2_def)
  have defaults': "filter defaultRule [ruleWeb, ruleDb] = []"
    by (simp add: defaultRule_def ruleDb_def ruleWeb_def)
  note t = RestoreOptionsForHost_last_default_rule [OF no_host, unfolded defaults]
  note t' = RestoreOptionsForHost_last_default_rule [OF no_host', unfolded defaults']
  have a: "RestoreOptionsForHost ''cache-0'' [ruleDefault, ruleWeb, ruleDefault2, ruleDb] =
      ruleOptions ''cache-0'' ruleDefault2"
    using conjunct1 [OF t] by simp
  have b: "ro_SourceHost (ruleOptions ''cache-0'' ruleDefault2) = ''archive''"
    by (simp add: ruleOptions_def ruleDefault2_def)
  have c: "RestoreOptionsForHost ''cache-0'' [ruleWeb, ruleDb] = zeroRestoreOptions"
    using conjunct1 [OF t'] by simp
  show ?thesis using a b c by blast
qed

section \<open>Properties of the setup options\<close>




section \<open>Properties of the reconciliation pass\<close>

lemma map_of_upsert: "map_of (upsert k v al) = (map_of al)(k \<mapsto> v)"
  by (induction al) (auto simp: fun_eq_iff)

lemma NewAggregate_Some: "NewAggregate (Some e # es) \<noteq> None"
  by (simp add: NewAggregate_def List.map_filter_simps)

lemma enqueueFromLister_error:
  "fst (enqueueFromLister env kind q b ns n w) = fst (enqueueFromLister env kind q b ns n w')"
  by (simp add: enqueueFromLister_def split: option.splits prod.splits)

lemma sendEventToWorkloadQueue_error:
  "fst (sendEventToWorkloadQueue env kind ns n w) = notificationError env \<lparr>tr_APIVersion = v, tr_Kind = kind, tr_Name = n\<rparr> ns"
  unfolding notificationError_def sendEventToWorkloadQueue_def
  using enqueueFromLister_error [of env _ _ _ ns n w emptyWorld]
  by simp

lemma enqueueFromLister_frame:
  "enqueueFromLister env kind q b ns n w = (r, w') \<Longrightarrow>
   Conditions w' = Conditions w \<and> bcQueue w' = bcQueue w \<and> CronJobs w' = CronJobs w \<and>
   stored_Finalizers w' = stored_Finalizers w \<and> ServiceAccounts w' = ServiceAccounts w \<and>
   Events w' = Events w"
  by (auto simp: enqueueFromLister_def split: option.splits prod.splits if_splits)

lemma sendEventToWorkloadQueue_frame:
  "sendEventToWorkloadQueue env kind ns n w = (r, w') \<Longrightarrow>
   Conditions w' = Conditions w \<and> bcQueue w' = bcQueue w \<and> CronJobs w' = CronJobs w \<and>
   stored_Finalizers w' = stored_Finalizers w \<and> ServiceAccounts w' = ServiceAccounts w \<and>
   Events w' = Events w"
  unfolding sendEventToWorkloadQueue_def
  by (auto split: if_splits dest: enqueueFromLister_frame)

lemma EnsureV1beta1Sidecar_error:
  "fst (EnsureV1beta1Sidecar env tref ns w) = notificationError env tref ns"
  unfolding EnsureV1beta1Sidecar_def notificationError_def sendEventToWorkloadQueue_def
  using enqueueFromLister_error [of env _ _ _ ns "tr_Name tref" w emptyWorld]
  by simp

lemma EnsureV1beta1SidecarDeleted_error:
  "fst (EnsureV1beta1SidecarDeleted env tref ns w) = notificationError env tref ns"
  unfolding EnsureV1beta1SidecarDeleted_def notificationError_def sendEventToWorkloadQueue_def
  using enqueueFromLister_error [of env _ _ _ ns "tr_Name tref" w emptyWorld]
  by simp

lemma EnsureV1beta1Sidecar_frame:
  "EnsureV1beta1Sidecar env tref ns w = (r, w') \<Longrightarrow>
   Conditions w' = Conditions w \<and> bcQueue w' = bcQueue w \<and> CronJobs w' = CronJobs w \<and>
   stored_Finalizers w' = stored_Finalizers w \<and> ServiceAccounts w' = ServiceAccounts w \<and>
   Events w' = Events w"
  unfolding EnsureV1beta1Sidecar_def by (rule sendEventToWorkloadQueue_frame)

text \<open>One settled target: the loop body goes on, having written the condition of the target.\<close>

lemma targetStep_settled:
  assumes t: "Target targetInfo = Some target"
    and settled: "targetSettled env invoker (Ref target)"
  shows "\<exists>w'. targetStep env invoker targetInfo missing w =
            (Inr (missing \<or> targetMissing env invoker (Ref target)), w') \<and>
          Conditions w' =
            upsert (BackupTargetFound, Some (Ref target)) (targetStatus env invoker (Ref target))
              (Conditions w) \<and>
          bcQueue w' = bcQueue w \<and> CronJobs w' = CronJobs w \<and>
          stored_Finalizers w' = stored_Finalizers w"
proof -
  let ?ns = "om_Namespace (ObjectMeta invoker)"
  let ?tref = "Ref target"
  obtain b where look: "IsTargetExist env ?tref ?ns = (b, None)"
    using settled by (cases "IsTargetExist env ?tref ?ns") (simp add: targetSettled_def)
  have wr: "SetCondition_err env (BackupTargetFound, Some ?tref)
                 (if b then ConditionTrue else ConditionFalse) = None"
    using settled look by (simp add: targetSettled_def targetStatus_def)
  show ?thesis
  proof (cases b)
    case False
    with t look wr show ?thesis
      by (simp add: targetStep_def SetCondition_def targetMissing_def targetStatus_def)
  next
    case True
    let ?w1 = "w\<lparr>Conditions := upsert (BackupTargetFound, Some ?tref) ConditionTrue (Conditions w)\<rparr>"
    show ?thesis
    proof (cases "(Driver invoker = [] \<or> Driver invoker = ResticSnapshotter) \<and>
                  BackupModel env (tr_Kind ?tref) = ModelSidecar")
      case False
      with True t look wr show ?thesis
        by (auto simp: targetStep_def SetCondition_def targetMissing_def targetStatus_def)
    next
      case sidecar: True
      then have "notificationError env ?tref ?ns = None"
        using settled look True by (simp add: targetSettled_def)
      then have "fst (EnsureV1beta1Sidecar env ?tref ?ns ?w1) = None"
        by (simp add: EnsureV1beta1Sidecar_error)
      then obtain w2 where ens: "EnsureV1beta1Sidecar env ?tref ?ns ?w1 = (None, w2)"
        by (cases "EnsureV1beta1Sidecar env ?tref ?ns ?w1") simp
      from EnsureV1beta1Sidecar_frame [OF ens]
      have fr: "Conditions w2 = Conditions ?w1" "bcQueue w2 = bcQueue ?w1"
        "CronJobs w2 = CronJobs ?w1" "stored_Finalizers w2 = stored_Finalizers ?w1"
        by simp_all
      have "targetStep env invoker targetInfo missing w = (Inr missing, w2)"
        using True t look wr sidecar ens
        by (simp add: targetStep_def SetCondition_def)
      with fr True look show ?thesis
        by (simp add: targetMissing_def targetStatus_def)
    qed
  qed
qed

lemma targetStep_nil:
  "Target targetInfo = None \<Longrightarrow> targetStep env invoker targetInfo missing w = (Inr missing, w)"
  by (simp add: targetStep_def)

lemma targetRefs_Cons:
  "targetRefs (ti # tis) =
     (case Target ti of None \<Rightarrow> targetRefs tis | Some t \<Rightarrow> Ref t # targetRefs tis)"
  by (simp add: targetRefs_def List.map_filter_simps split: option.splits)

lemma targetRefs_Nil: "targetRefs [] = []"
  by (simp add: targetRefs_def List.map_filter_simps)

lemma targetRefs_append: "targetRefs (xs @ ys) = targetRefs xs @ targetRefs ys"
  by (simp add: targetRefs_def List.map_filter_def)

text \<open>
  A list of settled targets: the loop ends without returning, the flag tells whether a
  target was missing, every target has its condition, and nothing else has changed
  among the conditions, the requeues, the CronJobs and the finalizers.
\<close>

lemma targetsLoop_settled:
  assumes "\<forall>t \<in> set (targetRefs targets). targetSettled env invoker t"
  shows "\<exists>w'. targetsLoop env invoker targets missing w =
            (Inr (missing \<or> (\<exists>t \<in> set (targetRefs targets). targetMissing env invoker t)), w') \<and>
          (\<forall>t \<in> set (targetRefs targets).
             condition w' (BackupTargetFound, Some t) = Some (targetStatus env invoker t)) \<and>
          (\<forall>k. k \<notin> (\<lambda>t. (BackupTargetFound, Some t)) ` set (targetRefs targets) \<longrightarrow>
             condition w' k = condition w k) \<and>
          bcQueue w' = bcQueue w \<and> CronJobs w' = CronJobs w \<and>
          stored_Finalizers w' = stored_Finalizers w"
  using assms
proof (induction targets arbitrary: missing w)
  case Nil
  then show ?case by (simp add: targetRefs_Nil)
next
  case (Cons ti tis)
  show ?case
  proof (cases "Target ti")
    case None
    then have refs: "targetRefs (ti # tis) = targetRefs tis" by (simp add: targetRefs_Cons)
    with Cons.prems have "\<forall>t \<in> set (targetRefs tis). targetSettled env invoker t" by simp
    from Cons.IH [OF this, of missing w] None refs show ?thesis
      by (simp add: targetStep_nil)
  next
    case (Some target)
    then have refs: "targetRefs (ti # tis) = Ref target # targetRefs tis"
      by (simp add: targetRefs_Cons)
    with Cons.prems have here: "targetSettled env invoker (Ref target)"
      and rest: "\<forall>t \<in> set (targetRefs tis). targetSettled env invoker t" by simp_all
    let ?k = "(BackupTargetFound, Some (Ref target))"
    let ?m = "missing \<or> targetMissing env invoker (Ref target)"
    from targetStep_settled [OF Some here, of missing w]
    obtain w1 where step: "targetStep env invoker ti missing w = (Inr ?m, w1)"
      and c1: "Conditions w1 = upsert ?k (targetStatus env invoker (Ref target)) (Conditions w)"
      and f1: "bcQueue w1 = bcQueue w" "CronJobs w1 = CronJobs w"
        "stored_Finalizers w1 = stored_Finalizers w"
      by blast
    from Cons.IH [OF rest, of ?m w1]
    obtain w' where loop: "targetsLoop env invoker tis ?m w1 =
        (Inr (?m \<or> (\<exists>t \<in> set (targetRefs tis). targetMissing env invoker t)), w')"
      and set': "\<forall>t \<in> set (targetRefs tis).
          condition w' (BackupTargetFound, Some t) = Some (targetStatus env invoker t)"
      and keep': "\<forall>k. k \<notin> (\<lambda>t. (BackupTargetFound, Some t)) ` set (targetRefs tis) \<longrightarrow>
          condition w' k = condition w1 k"
      and f': "bcQueue w' = bcQueue w1" "CronJobs w' = CronJobs w1"
        "stored_Finalizers w' = stored_Finalizers w1"
      by blast
    have cond1: "condition w1 k = (if k = ?k then Some (targetStatus env invoker (Ref target))
                                   else condition w k)" for k
      by (simp add: condition_def c1 map_of_upsert)
    have "targetsLoop env invoker (ti # tis) missing w =
        (Inr (missing \<or> (\<exists>t \<in> set (targetRefs (ti # tis)). targetMissing env invoker t)), w')"
      using step loop refs by auto
    moreover have "\<forall>t \<in> set (targetRefs (ti # tis)).
        condition w' (BackupTargetFound, Some t) = Some (targetStatus env invoker t)"
    proof
      fix t assume "t \<in> set (targetRefs (ti # tis))"
      then consider "t \<in> set (targetRefs tis)" | "t = Ref target" "t \<notin> set (targetRefs tis)"
        using refs by auto
      then show "condition w' (BackupTargetFound, Some t) = Some (targetStatus env invoker t)"
      proof cases
        case 1
        with set' show ?thesis by simp
      next
        case 2
        then have "(BackupTargetFound, Some t) \<notin>
            (\<lambda>t. (BackupTargetFound, Some t)) ` set (targetRefs tis)" by auto
        with keep' have "condition w' (BackupTargetFound, Some t) =
            condition w1 (BackupTargetFound, Some t)" by blast
        with 2 cond1 show ?thesis by simp
      qed
    qed
    moreover have "\<forall>k. k \<notin> (\<lambda>t. (BackupTargetFound, Some t)) ` set (targetRefs (ti # tis)) \<longrightarrow>
        condition w' k = condition w k"
    proof (intro allI impI)
      fix k assume k: "k \<notin> (\<lambda>t. (BackupTargetFound, Some t)) ` set (targetRefs (ti # tis))"
      with refs have ne: "k \<noteq> ?k"
        and out: "k \<notin> (\<lambda>t. (BackupTargetFound, Some t)) ` set (targetRefs tis)"
        by auto
      from keep' out have "condition w' k = condition w1 k" by blast
      also have "\<dots> = condition w k" using cond1 [of k] ne by simp
      finally show "condition w' k = condition w k" .
    qed
    ultimately show ?thesis using f1 f' by simp
  qed
qed

lemma targetsLoop_append:
  "targetsLoop env invoker (xs @ ys) missing w =
     (case targetsLoop env invoker xs missing w of
        (Inl out, w') \<Rightarrow> (Inl out, w')
      | (Inr missing', w') \<Rightarrow> targetsLoop env invoker ys missing' w')"
  by (induction xs arbitrary: missing w) (auto split: prod.splits sum.splits)

text \<open>A target whose lookup fails: the loop body returns after writing \<open>Unknown\<close>.\<close>

lemma targetStep_lookup_error:
  assumes "Target targetInfo = Some target"
    and "IsTargetExist env (Ref target) (om_Namespace (ObjectMeta invoker)) = (b, Some err)"
  shows "targetStep env invoker targetInfo missing w =
           (Inl (Return (NewAggregate
                   [Some err, SetCondition_err env (BackupTargetFound, Some (Ref target)) ConditionUnknown])),
            snd (SetCondition env (BackupTargetFound, Some (Ref target)) ConditionUnknown w))"
  using assms by (simp add: targetStep_def SetCondition_def split: option.splits)

lemma AddFinalizer_frame:
  "AddFinalizer env w = (r, w1) \<Longrightarrow>
   Conditions w1 = Conditions w \<and> bcQueue w1 = bcQueue w \<and> CronJobs w1 = CronJobs w"
  by (auto simp: AddFinalizer_def split: option.splits if_splits)

lemma checkRepositoryAndSecret_passed:
  "checkRepositoryAndSecret env invoker key w1 = (Inr u, w2) \<Longrightarrow>
   bcQueue w2 = bcQueue w1 \<and> CronJobs w2 = CronJobs w1 \<and>
   condition w2 (CronJobCreated, None) = condition w1 (CronJobCreated, None)"
  by (auto simp: checkRepositoryAndSecret_def SetCondition_def condition_def map_of_upsert
      split: GetResult.splits option.splits if_splits prod.splits)

lemma requeueInvoker_BackupConfiguration:
  "tm_Kind (TypeMeta invoker) = ResourceKindBackupConfiguration \<Longrightarrow>
   requeueInvoker invoker key delay w = (None, w\<lparr>bcQueue := bcQueue w @ [(key, delay)]\<rparr>)"
  by (simp add: requeueInvoker_def)

text \<open>
  Claim C1, as amended. In a pass of a non-deleting BackupConfiguration invoker that
  gets to the loop over the targets (the finalizer was added, and the repository and
  secret checks of the default driver passed or the driver is another one):

  \<^item> if every target is settled and at least one target is missing, the pass returns no
    error, every target has its \<open>BackupTargetFound\<close> condition (\<open>False\<close> for a
    missing target, \<open>True\<close> for an existing one), the CronJobs of the cluster and the
    \<open>CronJobCreated\<close> condition are as before the pass, and the queue has received
    exactly one delayed addition: the key of the invoker, after 5 seconds;

  \<^item> if the targets before some target are settled and the lookup of that target fails,
    the pass returns the aggregate of the lookup error and of the error of writing
    \<open>Unknown\<close>, the condition of the target is \<open>Unknown\<close> when the write succeeded, no
    CronJob is written and nothing is added to the queue, whatever targets were missing
    before and whatever targets follow.
\<close>

theorem missing_target_defers_cronjob:
  assumes notDeleting: "DeletionTimestamp (ObjectMeta invoker) = None"
    and kind: "tm_Kind (TypeMeta invoker) = ResourceKindBackupConfiguration"
    and fin: "AddFinalizer env w = (None, w1)"
    and deps: "(if Driver invoker = [] \<or> Driver invoker = ResticSnapshotter
                then checkRepositoryAndSecret env invoker key w1 else (Inr (), w1)) = (Inr (), w2)"
  shows
    "((\<forall>t \<in> set (targetRefs (TargetsInfo invoker)). targetSettled env invoker t) \<and>
      (\<exists>t \<in> set (targetRefs (TargetsInfo invoker)). targetMissing env invoker t) \<longrightarrow>
        fst (applyBackupInvokerReconciliationLogic env invoker key w) = Return None \<and>
        bcQueue (snd (applyBackupInvokerReconciliationLogic env invoker key w)) =
          bcQueue w @ [(key, 5 * Second)] \<and>
        CronJobs (snd (applyBackupInvokerReconciliationLogic env invoker key w)) = CronJobs w \<and>
        condition (snd (applyBackupInvokerReconciliationLogic env invoker key w)) (CronJobCreated, None) =
          condition w (CronJobCreated, None) \<and>
        (\<forall>t \<in> set (targetRefs (TargetsInfo invoker)).
           condition (snd (applyBackupInvokerReconciliationLogic env invoker key w))
               (BackupTargetFound, Some t) =
             Some (if targetMissing env invoker t then ConditionFalse else ConditionTrue))) \<and>
     (TargetsInfo invoker = pre @ \<lparr>Target = Some target\<rparr> # post \<and>
      (\<forall>t \<in> set (targetRefs pre). targetSettled env invoker t) \<and>
      IsTargetExist env (Ref target) (om_Namespace (ObjectMeta invoker)) = (b, Some err) \<longrightarrow>
        fst (applyBackupInvokerReconciliationLogic env invoker key w) =
          Return (NewAggregate
            [Some err, SetCondition_err env (BackupTargetFound, Some (Ref target)) ConditionUnknown]) \<and>
        bcQueue (snd (applyBackupInvokerReconciliationLogic env invoker key w)) = bcQueue w \<and>
        CronJobs (snd (applyBackupInvokerReconciliationLogic env invoker key w)) = CronJobs w \<and>
        (SetCondition_err env (BackupTargetFound, Some (Ref target)) ConditionUnknown = None \<longrightarrow>
           condition (snd (applyBackupInvokerReconciliationLogic env invoker key w))
               (BackupTargetFound, Some (Ref target)) = Some ConditionUnknown))"
proof -
  let ?R = "applyBackupInvokerReconciliationLogic env invoker key w"
  let ?targets = "TargetsInfo invoker"
  have f1: "Conditions w1 = Conditions w" "bcQueue w1 = bcQueue w" "CronJobs w1 = CronJobs w"
    using AddFinalizer_frame [OF fin] by simp_all
  have f2: "bcQueue w2 = bcQueue w" "CronJobs w2 = CronJobs w"
    "condition w2 (CronJobCreated, None) = condition w (CronJobCreated, None)"
    using deps checkRepositoryAndSecret_passed [of env invoker key w1 "()" w2] f1
    by (auto simp: condition_def split: if_splits)
  have pass: "?R =
      (case targetsLoop env invoker ?targets False w2 of
         (Inl out, w3) \<Rightarrow> (out, w3)
       | (Inr someTargetMissing, w3) \<Rightarrow>
           (let (r, w4) = afterTargets env invoker key someTargetMissing w3 in (Return r, w4)))"
    using notDeleting fin deps
    by (simp add: applyBackupInvokerReconciliationLogic_def)
  have missing: "fst ?R = Return None \<and> bcQueue (snd ?R) = bcQueue w @ [(key, 5 * Second)] \<and>
      CronJobs (snd ?R) = CronJobs w \<and>
      condition (snd ?R) (CronJobCreated, None) = condition w (CronJobCreated, None) \<and>
      (\<forall>t \<in> set (targetRefs ?targets).
         condition (snd ?R) (BackupTargetFound, Some t) =
           Some (if targetMissing env invoker t then ConditionFalse else ConditionTrue))"
    if settled: "\<forall>t \<in> set (targetRefs ?targets). targetSettled env invoker t"
      and some: "\<exists>t \<in> set (targetRefs ?targets). targetMissing env invoker t"
  proof -
    from targetsLoop_settled [OF settled, of False w2] some
    obtain w3 where loop: "targetsLoop env invoker ?targets False w2 = (Inr True, w3)"
      and set3: "\<forall>t \<in> set (targetRefs ?targets).
          condition w3 (BackupTargetFound, Some t) = Some (targetStatus env invoker t)"
      and keep3: "\<forall>k. k \<notin> (\<lambda>t. (BackupTargetFound, Some t)) ` set (targetRefs ?targets) \<longrightarrow>
          condition w3 k = condition w2 k"
      and f3: "bcQueue w3 = bcQueue w2" "CronJobs w3 = CronJobs w2"
      by auto
    have R: "?R = (Return None, w3\<lparr>bcQueue := bcQueue w3 @ [(key, 5 * Second)]\<rparr>)"
      using pass loop requeueInvoker_BackupConfiguration [OF kind]
      by (simp add: afterTargets_def)
    have cj: "(CronJobCreated, None) \<notin> (\<lambda>t. (BackupTargetFound, Some t)) ` set (targetRefs ?targets)"
      by auto
    have status: "targetStatus env invoker t =
        (if targetMissing env invoker t then ConditionFalse else ConditionTrue)"
      if "t \<in> set (targetRefs ?targets)" for t
      using settled that
      by (cases "IsTargetExist env t (om_Namespace (ObjectMeta invoker))")
        (auto simp: targetSettled_def targetStatus_def targetMissing_def)
    show ?thesis
      using R f3 f2 set3 keep3 cj status by (simp add: condition_def)
  qed
  have failing: "fst ?R = Return (NewAggregate
        [Some err, SetCondition_err env (BackupTargetFound, Some (Ref target)) ConditionUnknown]) \<and>
      bcQueue (snd ?R) = bcQueue w \<and> CronJobs (snd ?R) = CronJobs w \<and>
      (SetCondition_err env (BackupTargetFound, Some (Ref target)) ConditionUnknown = None \<longrightarrow>
         condition (snd ?R) (BackupTargetFound, Some (Ref target)) = Some ConditionUnknown)"
    if split: "?targets = pre @ \<lparr>Target = Some target\<rparr> # post"
      and settled: "\<forall>t \<in> set (targetRefs pre). targetSettled env invoker t"
      and look: "IsTargetExist env (Ref target) (om_Namespace (ObjectMeta invoker)) = (b, Some err)"
  proof -
    from targetsLoop_settled [OF settled, of False w2]
    obtain m w3 where loop: "targetsLoop env invoker pre False w2 = (Inr m, w3)"
      and f3: "bcQueue w3 = bcQueue w2" "CronJobs w3 = CronJobs w2"
      by auto
    let ?k = "(BackupTargetFound, Some (Ref target))"
    have step: "targetStep env invoker \<lparr>Target = Some target\<rparr> m w3 =
        (Inl (Return (NewAggregate [Some err, SetCondition_err env ?k ConditionUnknown])),
         snd (SetCondition env ?k ConditionUnknown w3))"
      by (rule targetStep_lookup_error [OF _ look]) simp
    have R: "?R = (Return (NewAggregate [Some err, SetCondition_err env ?k ConditionUnknown]),
        snd (SetCondition env ?k ConditionUnknown w3))"
      using pass split loop step by (simp add: targetsLoop_append)
    show ?thesis
      using R f3 f2
      by (auto simp: SetCondition_def condition_def map_of_upsert split: option.splits)
  qed
  from missing failing show ?thesis by blast
qed

theorem missing_target_defers_cronjob_witness:
  "(fst (applyBackupInvokerReconciliationLogic envSample invokerSample ''demo/bc'' emptyWorld) =
      Return None \<and>
    bcQueue (snd (applyBackupInvokerReconciliationLogic envSample invokerSample ''demo/bc'' emptyWorld)) =
      [(''demo/bc'', 5000000000)] \<and>
    CronJobs (snd (applyBackupInvokerReconciliationLogic envSample invokerSample ''demo/bc'' emptyWorld)) =
      [] \<and>
    condition (snd (applyBackupInvokerReconciliationLogic envSample invokerSample ''demo/bc'' emptyWorld))
        (CronJobCreated, None) = None \<and>
    condition (snd (applyBackupInvokerReconciliationLogic envSample invokerSample ''demo/bc'' emptyWorld))
        (BackupTargetFound, Some targetWeb) = Some ConditionTrue \<and>
    condition (snd (applyBackupInvokerReconciliationLogic envSample invokerSample ''demo/bc'' emptyWorld))
        (BackupTargetFound, Some targetDb) = Some ConditionFalse) \<and>
   (fst (applyBackupInvokerReconciliationLogic envLookupError invokerSample ''demo/bc'' emptyWorld) =
      Return (Some (Aggregate [Err ''timeout''])) \<and>
    bcQueue (snd (applyBackupInvokerReconciliationLogic envLookupError invokerSample ''demo/bc'' emptyWorld)) =
      [] \<and>
    CronJobs (snd (applyBackupInvokerReconciliationLogic envLookupError invokerSample ''demo/bc'' emptyWorld)) =
      [] \<and>
    condition (snd (applyBackupInvokerReconciliationLogic envLookupError invokerSample ''demo/bc'' emptyWorld))
        (BackupTargetFound, Some targetDb) = Some ConditionUnknown)"
proof -
  let ?w1 = "emptyWorld\<lparr>stored_Finalizers := [StashKey]\<rparr>"
  let ?w2 = "?w1\<lparr>Conditions := [((RepositoryFound, None), ConditionTrue),
                                  ((BackendSecretFound, None), ConditionTrue)]\<rparr>"
  have nd: "DeletionTimestamp (ObjectMeta invokerSample) = None"
    by (simp add: invokerSample_def)
  have kind: "tm_Kind (TypeMeta invokerSample) = ResourceKindBackupConfiguration"
    by (simp add: invokerSample_def ResourceKindBackupConfiguration_def)
  have refs: "targetRefs (TargetsInfo invokerSample) = [targetWeb, targetDb]"
    by (simp add: invokerSample_def targetRefs_def List.map_filter_simps)
  have ns: "om_Namespace (ObjectMeta invokerSample) = ''demo''"
    by (simp add: invokerSample_def)
  have empty: "bcQueue emptyWorld = []" "CronJobs emptyWorld = []"
    "condition emptyWorld (CronJobCreated, None) = None"
    by (simp_all add: emptyWorld_def condition_def)
  have fin: "AddFinalizer envSample emptyWorld = (None, ?w1)"
    by (simp add: AddFinalizer_def envSample_def emptyWorld_def)
  have deps: "(if Driver invokerSample = [] \<or> Driver invokerSample = ResticSnapshotter
               then checkRepositoryAndSecret envSample invokerSample ''demo/bc'' ?w1
               else (Inr (), ?w1)) = (Inr (), ?w2)"
    by (simp add: checkRepositoryAndSecret_def envSample_def invokerSample_def emptyWorld_def
        SetCondition_def)
  have web: "IsTargetExist envSample targetWeb ''demo'' = (True, None)"
    and db: "IsTargetExist envSample targetDb ''demo'' = (False, None)"
    by (simp_all add: envSample_def targetWeb_def targetDb_def)
  have settled: "\<forall>t \<in> set (targetRefs (TargetsInfo invokerSample)). targetSettled envSample invokerSample t"
    unfolding refs by code_simp
  have missing: "\<exists>t \<in> set (targetRefs (TargetsInfo invokerSample)). targetMissing envSample invokerSample t"
    unfolding refs by (simp add: targetMissing_def ns db)
  have miss: "\<not> targetMissing envSample invokerSample targetWeb"
    "targetMissing envSample invokerSample targetDb"
    by (simp_all add: targetMissing_def ns db web)
  note a = missing_target_defers_cronjob [OF nd kind fin deps, THEN conjunct1, rule_format,
      OF conjI [OF settled missing], unfolded refs empty]
  have fin': "AddFinalizer envLookupError emptyWorld = (None, ?w1)"
    by (simp add: AddFinalizer_def envLookupError_def envSample_def emptyWorld_def)
  have deps': "(if Driver invokerSample = [] \<or> Driver invokerSample = ResticSnapshotter
               then checkRepositoryAndSecret envLookupError invokerSample ''demo/bc'' ?w1
               else (Inr (), ?w1)) = (Inr (), ?w2)"
    by (simp add: checkRepositoryAndSecret_def envLookupError_def envSample_def invokerSample_def
        emptyWorld_def SetCondition_def)
  have split: "TargetsInfo invokerSample =
      [\<lparr>Target = Some \<lparr>Ref = targetWeb\<rparr>\<rparr>] @ \<lparr>Target = Some \<lparr>Ref = targetDb\<rparr>\<rparr> # []"
    by (simp add: invokerSample_def)
  have settled': "\<forall>t \<in> set (targetRefs [\<lparr>Target = Some \<lparr>Ref = targetWeb\<rparr>\<rparr>]).
      targetSettled envLookupError invokerSample t"
    by code_simp
  have look: "IsTargetExist envLookupError (Ref \<lparr>Ref = targetDb\<rparr>)
      (om_Namespace (ObjectMeta invokerSample)) = (False, Some (Err ''timeout''))"
    by (simp add: envLookupError_def envSample_def targetDb_def)
  have wr: "SetCondition_err envLookupError (BackupTargetFound, Some targetDb) ConditionUnknown = None"
    by (simp add: envLookupError_def envSample_def)
  note b = missing_target_defers_cronjob [OF nd kind fin' deps', THEN conjunct2, rule_format,
      OF conjI [OF split conjI [OF settled' look]], unfolded empty]
  show ?thesis
    using a b miss wr
    by (simp add: Second_def NewAggregate_def List.map_filter_simps)
qed

text \<open>
  Claim C1 as it was stated fails on a pass in which one target is missing and the
  lookup of a later target fails: the first target is marked \<open>False\<close>, and the pass
  returns the lookup error without any requeue.
\<close>

theorem lookup_error_after_missing_target_no_requeue:
  "DeletionTimestamp (ObjectMeta invokerSample) = None \<and>
   targetRefs (TargetsInfo invokerSample) = [targetWeb, targetDb] \<and>
   targetMissing envLookupError invokerSample targetWeb \<and>
   condition (snd (applyBackupInvokerReconciliationLogic envLookupError invokerSample ''demo/bc'' emptyWorld))
       (BackupTargetFound, Some targetWeb) = Some ConditionFalse \<and>
   fst (applyBackupInvokerReconciliationLogic envLookupError invokerSample ''demo/bc'' emptyWorld) =
     Return (Some (Aggregate [Err ''timeout''])) \<and>
   bcQueue (snd (applyBackupInvokerReconciliationLogic envLookupError invokerSample ''demo/bc'' emptyWorld)) \<noteq>
     [(''demo/bc'', 5 * Second)] \<and>
   bcQueue (snd (applyBackupInvokerReconciliationLogic envLookupError invokerSample ''demo/bc'' emptyWorld)) =
     []"
  by code_simp

text \<open>
  The other hypotheses of the amended claim are needed as well. When the repository does
  not exist, the pass ends before the loop: a missing target gets no condition. When the
  write of a target's condition fails, the pass returns that error and requeues nothing.
  For an invoker of another kind than BackupConfiguration, \<open>requeueInvoker\<close> returns an
  error and adds nothing to the queue.
\<close>

lemma repository_missing_leaves_targets_unset:
  "targetMissing envSample invokerNoRepository targetDb \<and>
   condition (snd (applyBackupInvokerReconciliationLogic envSample invokerNoRepository ''demo/bc'' emptyWorld))
       (BackupTargetFound, Some targetDb) = None \<and>
   bcQueue (snd (applyBackupInvokerReconciliationLogic envSample invokerNoRepository ''demo/bc'' emptyWorld)) =
     [(''demo/bc'', 5 * Second)]"
  by code_simp

lemma target_condition_write_failure_no_requeue:
  "targetMissing envTargetWriteFails invokerSample targetDb \<and>
   fst (applyBackupInvokerReconciliationLogic envTargetWriteFails invokerSample ''demo/bc'' emptyWorld) =
     Return (Some (Err ''conflict'')) \<and>
   bcQueue (snd (applyBackupInvokerReconciliationLogic envTargetWriteFails invokerSample ''demo/bc'' emptyWorld)) =
     []"
  by code_simp

lemma unsupported_kind_no_requeue:
  "targetMissing envSample invokerBatch targetDb \<and>
   fst (applyBackupInvokerReconciliationLogic envSample invokerBatch ''demo/bc'' emptyWorld) \<noteq>
     Return None \<and>
   bcQueue (snd (applyBackupInvokerReconciliationLogic envSample invokerBatch ''demo/bc'' emptyWorld)) =
     []"
  by code_simp

lemma SetCondition_ok:
  "SetCondition_err env k st = None \<Longrightarrow>
   SetCondition env k st w = (None, w\<lparr>Conditions := upsert k st (Conditions w)\<rparr>)"
  by (simp add: SetCondition_def)

lemma SetCondition_fail:
  "SetCondition_err env k st = Some e \<Longrightarrow> SetCondition env k st w = (Some e, w)"
  by (simp add: SetCondition_def)

text \<open>
  Claim C3, as amended. In a pass of a non-deleting invoker with the default driver,
  once the finalizer was added:

  \<^item> a repository lookup that fails with not-found leads to the write of
    \<open>RepositoryFound = False\<close>; if the write succeeds and the invoker is a
    BackupConfiguration, the pass returns no error and has added the key of the invoker
    to the queue once, with a delay of 5 seconds; if the write fails, the pass returns
    the error of the write and adds nothing to the queue;

  \<^item> any other failure of the repository lookup leads to the write of \<open>Unknown\<close>, and
    the pass returns the lookup error aggregated with the error of that write, if any,
    adding nothing to the queue;

  \<^item> the same holds of the lookup of the backend Secret and the condition
    \<open>BackendSecretFound\<close>, once the repository was found and \<open>RepositoryFound = True\<close>
    was written, when the failed lookup returns an object with its error.
\<close>

theorem dependency_lookup_policy:
  assumes notDeleting: "DeletionTimestamp (ObjectMeta invoker) = None"
    and driver: "Driver invoker = [] \<or> Driver invoker = ResticSnapshotter"
    and fin: "AddFinalizer env w = (None, w1)"
  shows
   "(Repositories_Get env (om_Namespace (ObjectMeta invoker)) (inv_Repository invoker) = GetErr p err \<longrightarrow>
      (IsNotFound (Some err) \<and> SetCondition_err env (RepositoryFound, None) ConditionFalse = None \<and>
       tm_Kind (TypeMeta invoker) = ResourceKindBackupConfiguration \<longrightarrow>
         applyBackupInvokerReconciliationLogic env invoker key w =
           (Return None,
            w1\<lparr>Conditions := upsert (RepositoryFound, None) ConditionFalse (Conditions w1),
               bcQueue := bcQueue w1 @ [(key, 5 * Second)]\<rparr>)) \<and>
      (IsNotFound (Some err) \<and> SetCondition_err env (RepositoryFound, None) ConditionFalse = Some err2 \<longrightarrow>
         applyBackupInvokerReconciliationLogic env invoker key w = (Return (Some err2), w1)) \<and>
      (\<not> IsNotFound (Some err) \<longrightarrow>
         applyBackupInvokerReconciliationLogic env invoker key w =
           (Return (NewAggregate [Some err, SetCondition_err env (RepositoryFound, None) ConditionUnknown]),
            snd (SetCondition env (RepositoryFound, None) ConditionUnknown w1)) \<and>
         bcQueue (snd (applyBackupInvokerReconciliationLogic env invoker key w)) = bcQueue w1 \<and>
         (SetCondition_err env (RepositoryFound, None) ConditionUnknown = None \<longrightarrow>
            condition (snd (applyBackupInvokerReconciliationLogic env invoker key w))
              (RepositoryFound, None) = Some ConditionUnknown))) \<and>
    (Repositories_Get env (om_Namespace (ObjectMeta invoker)) (inv_Repository invoker) = GetOk repository \<and>
     SetCondition env (RepositoryFound, None) ConditionTrue w1 = (None, w2) \<and>
     Secrets_Get env (repo_Namespace repository) (StorageSecretName repository) = GetErr (Some secret) serr \<longrightarrow>
      (IsNotFound (Some serr) \<and> SetCondition_err env (BackendSecretFound, None) ConditionFalse = None \<and>
       tm_Kind (TypeMeta invoker) = ResourceKindBackupConfiguration \<longrightarrow>
         applyBackupInvokerReconciliationLogic env invoker key w =
           (Return None,
            w2\<lparr>Conditions := upsert (BackendSecretFound, None) ConditionFalse (Conditions w2),
               bcQueue := bcQueue w2 @ [(key, 5 * Second)]\<rparr>)) \<and>
      (IsNotFound (Some serr) \<and> SetCondition_err env (BackendSecretFound, None) ConditionFalse = Some err2 \<longrightarrow>
         applyBackupInvokerReconciliationLogic env invoker key w = (Return (Some err2), w2)) \<and>
      (\<not> IsNotFound (Some serr) \<longrightarrow>
         applyBackupInvokerReconciliationLogic env invoker key w =
           (Return (NewAggregate [Some serr, SetCondition_err env (BackendSecretFound, None) ConditionUnknown]),
            snd (SetCondition env (BackendSecretFound, None) ConditionUnknown w2)) \<and>
         bcQueue (snd (applyBackupInvokerReconciliationLogic env invoker key w)) = bcQueue w2 \<and>
         (SetCondition_err env (BackendSecretFound, None) ConditionUnknown = None \<longrightarrow>
            condition (snd (applyBackupInvokerReconciliationLogic env invoker key w))
              (BackendSecretFound, None) = Some ConditionUnknown)))"
proof -
  let ?R = "applyBackupInvokerReconciliationLogic env invoker key w"
  let ?get = "Repositories_Get env (om_Namespace (ObjectMeta invoker)) (inv_Repository invoker)"
  have pass: "?R =
      (case checkRepositoryAndSecret env invoker key w1 of
         (Inl out, w2) \<Rightarrow> (out, w2)
       | (Inr u, w2) \<Rightarrow>
           (case targetsLoop env invoker (TargetsInfo invoker) False w2 of
              (Inl out, w3) \<Rightarrow> (out, w3)
            | (Inr someTargetMissing, w3) \<Rightarrow>
                (let (r, w4) = afterTargets env invoker key someTargetMissing w3 in (Return r, w4))))"
    using notDeleting driver fin by (simp add: applyBackupInvokerReconciliationLogic_def)
  have r1: "?R = (Return None,
            w1\<lparr>Conditions := upsert (RepositoryFound, None) ConditionFalse (Conditions w1),
               bcQueue := bcQueue w1 @ [(key, 5 * Second)]\<rparr>)"
    if "?get = GetErr p err" "IsNotFound (Some err)"
      "SetCondition_err env (RepositoryFound, None) ConditionFalse = None"
      "tm_Kind (TypeMeta invoker) = ResourceKindBackupConfiguration"
    using that pass
    by (simp add: checkRepositoryAndSecret_def SetCondition_def requeueInvoker_def)
  have r2: "?R = (Return (Some err2), w1)"
    if "?get = GetErr p err" "IsNotFound (Some err)"
      "SetCondition_err env (RepositoryFound, None) ConditionFalse = Some err2"
    using that pass by (simp add: checkRepositoryAndSecret_def SetCondition_def)
  have r3: "?R = (Return (NewAggregate [Some err, SetCondition_err env (RepositoryFound, None) ConditionUnknown]),
            snd (SetCondition env (RepositoryFound, None) ConditionUnknown w1))"
    if "?get = GetErr p err" "\<not> IsNotFound (Some err)"
    using that pass
    by (simp add: checkRepositoryAndSecret_def SetCondition_def split: option.splits)
  have r4: "bcQueue (snd ?R) = bcQueue w1"
    if "?get = GetErr p err" "\<not> IsNotFound (Some err)"
    unfolding r3 [OF that] by (simp add: SetCondition_def split: option.splits)
  have r5: "condition (snd ?R) (RepositoryFound, None) = Some ConditionUnknown"
    if "?get = GetErr p err" "\<not> IsNotFound (Some err)"
      "SetCondition_err env (RepositoryFound, None) ConditionUnknown = None"
    unfolding r3 [OF that(1,2)] using that(3)
    by (simp add: SetCondition_def condition_def map_of_upsert)
  have stage: "checkRepositoryAndSecret env invoker key w1 =
      (if IsNotFound (Some serr) then
         (case SetCondition env (BackendSecretFound, None) ConditionFalse w2 of
            (Some err2, w3) \<Rightarrow> (Inl (Return (Some err2)), w3)
          | (None, w3) \<Rightarrow>
              (let (r, w4) = requeueInvoker invoker key (5 * Second) w3 in (Inl (Return r), w4)))
       else
         (let (err2, w3) = SetCondition env (BackendSecretFound, None) ConditionUnknown w2
          in (Inl (Return (NewAggregate [Some serr, err2])), w3)))"
    if "?get = GetOk repository" "SetCondition env (RepositoryFound, None) ConditionTrue w1 = (None, w2)"
      "Secrets_Get env (repo_Namespace repository) (StorageSecretName repository) = GetErr (Some secret) serr"
    using that by (simp add: checkRepositoryAndSecret_def)
  have s1: "?R = (Return None,
            w2\<lparr>Conditions := upsert (BackendSecretFound, None) ConditionFalse (Conditions w2),
               bcQueue := bcQueue w2 @ [(key, 5 * Second)]\<rparr>)"
    if "?get = GetOk repository" "SetCondition env (RepositoryFound, None) ConditionTrue w1 = (None, w2)"
      "Secrets_Get env (repo_Namespace repository) (StorageSecretName repository) = GetErr (Some secret) serr"
      "IsNotFound (Some serr)" "SetCondition_err env (BackendSecretFound, None) ConditionFalse = None"
      "tm_Kind (TypeMeta invoker) = ResourceKindBackupConfiguration"
    using that(4-6) pass unfolding stage [OF that(1-3)]
    by (simp add: SetCondition_def requeueInvoker_def)
  have s2: "?R = (Return (Some err2), w2)"
    if "?get = GetOk repository" "SetCondition env (RepositoryFound, None) ConditionTrue w1 = (None, w2)"
      "Secrets_Get env (repo_Namespace repository) (StorageSecretName repository) = GetErr (Some secret) serr"
      "IsNotFound (Some serr)" "SetCondition_err env (BackendSecretFound, None) ConditionFalse = Some err2"
    using that(4-5) pass unfolding stage [OF that(1-3)]
    by (simp add: SetCondition_def)
  have s3: "?R = (Return (NewAggregate [Some serr, SetCondition_err env (BackendSecretFound, None) ConditionUnknown]),
            snd (SetCondition env (BackendSecretFound, None) ConditionUnknown w2))"
    if "?get = GetOk repository" "SetCondition env (RepositoryFound, None) ConditionTrue w1 = (None, w2)"
      "Secrets_Get env (repo_Namespace repository) (StorageSecretName repository) = GetErr (Some secret) serr"
      "\<not> IsNotFound (Some serr)"
    using that(4) pass unfolding stage [OF that(1-3)]
    by (simp add: SetCondition_def split: option.splits)
  have s4: "bcQueue (snd ?R) = bcQueue w2"
    if "?get = GetOk repository" "SetCondition env (RepositoryFound, None) ConditionTrue w1 = (None, w2)"
      "Secrets_Get env (repo_Namespace repository) (StorageSecretName repository) = GetErr (Some secret) serr"
      "\<not> IsNotFound (Some serr)"
    unfolding s3 [OF that] by (simp add: SetCondition_def split: option.splits)
  have s5: "condition (snd ?R) (BackendSecretFound, None) = Some ConditionUnknown"
    if "?get = GetOk repository" "SetCondition env (RepositoryFound, None) ConditionTrue w1 = (None, w2)"
      "Secrets_Get env (repo_Namespace repository) (StorageSecretName repository) = GetErr (Some secret) serr"
      "\<not> IsNotFound (Some serr)"
      "SetCondition_err env (BackendSecretFound, None) ConditionUnknown = None"
    unfolding s3 [OF that(1-4)] using that(5)
    by (simp add: SetCondition_def condition_def map_of_upsert)
  show ?thesis
    by (intro conjI impI; (elim conjE)?; (rule r1 r2 r3 r4 r5 s1 s2 s3 s4 s5; assumption))
qed


theorem dependency_lookup_policy_witness:
  "(fst (applyBackupInvokerReconciliationLogic envSample invokerNoRepository ''demo/bc'' emptyWorld) =
      Return None \<and>
    bcQueue (snd (applyBackupInvokerReconciliationLogic envSample invokerNoRepository ''demo/bc'' emptyWorld)) =
      [(''demo/bc'', 5000000000)] \<and>
    condition (snd (applyBackupInvokerReconciliationLogic envSample invokerNoRepository ''demo/bc'' emptyWorld))
        (RepositoryFound, None) = Some ConditionFalse) \<and>
   (fst (applyBackupInvokerReconciliationLogic envRepositoryError invokerSample ''demo/bc'' emptyWorld) =
      Return (Some (Aggregate [Err ''connection refused''])) \<and>
    bcQueue (snd (applyBackupInvokerReconciliationLogic envRepositoryError invokerSample ''demo/bc'' emptyWorld)) =
      [] \<and>
    condition (snd (applyBackupInvokerReconciliationLogic envRepositoryError invokerSample ''demo/bc'' emptyWorld))
        (RepositoryFound, None) = Some ConditionUnknown) \<and>
   (fst (applyBackupInvokerReconciliationLogic envSecretMissing invokerSample ''demo/bc'' emptyWorld) =
      Return None \<and>
    bcQueue (snd (applyBackupInvokerReconciliationLogic envSecretMissing invokerSample ''demo/bc'' emptyWorld)) =
      [(''demo/bc'', 5000000000)] \<and>
    condition (snd (applyBackupInvokerReconciliationLogic envSecretMissing invokerSample ''demo/bc'' emptyWorld))
        (BackendSecretFound, None) = Some ConditionFalse) \<and>
   (fst (applyBackupInvokerReconciliationLogic envSecretError invokerSample ''demo/bc'' emptyWorld) =
      Return (Some (Aggregate [Err ''forbidden''])) \<and>
    bcQueue (snd (applyBackupInvokerReconciliationLogic envSecretError invokerSample ''demo/bc'' emptyWorld)) =
      [] \<and>
    condition (snd (applyBackupInvokerReconciliationLogic envSecretError invokerSample ''demo/bc'' emptyWorld))
        (BackendSecretFound, None) = Some ConditionUnknown)"
proof -
  let ?w1 = "emptyWorld\<lparr>stored_Finalizers := [StashKey]\<rparr>"
  let ?w2 = "?w1\<lparr>Conditions := [((RepositoryFound, None), ConditionTrue)]\<rparr>"
  let ?repo = "\<lparr>repo_Namespace = ''demo'', repo_Name = ''repo'', StorageSecretName = ''repo-secret''\<rparr>"
  let ?nosecret = "\<lparr>sec_Namespace = [], sec_Name = []\<rparr>"
  have nd: "DeletionTimestamp (ObjectMeta invokerSample) = None"
    "DeletionTimestamp (ObjectMeta invokerNoRepository) = None"
    by (simp_all add: invokerSample_def invokerNoRepository_def)
  have drv: "Driver invokerSample = [] \<or> Driver invokerSample = ResticSnapshotter"
    "Driver invokerNoRepository = [] \<or> Driver invokerNoRepository = ResticSnapshotter"
    by (simp_all add: invokerSample_def invokerNoRepository_def)
  have kind: "tm_Kind (TypeMeta invokerSample) = ResourceKindBackupConfiguration"
    "tm_Kind (TypeMeta invokerNoRepository) = ResourceKindBackupConfiguration"
    by (simp_all add: invokerSample_def invokerNoRepository_def ResourceKindBackupConfiguration_def)
  have fin: "AddFinalizer envSample emptyWorld = (None, ?w1)"
    "AddFinalizer envRepositoryError emptyWorld = (None, ?w1)"
    "AddFinalizer envSecretMissing emptyWorld = (None, ?w1)"
    "AddFinalizer envSecretError emptyWorld = (None, ?w1)"
    by (simp_all add: AddFinalizer_def envSample_def envRepositoryError_def envSecretMissing_def
        envSecretError_def emptyWorld_def)
  have a_get: "Repositories_Get envSample (om_Namespace (ObjectMeta invokerNoRepository))
      (inv_Repository invokerNoRepository) =
      GetErr (Some \<lparr>repo_Namespace = [], repo_Name = [], StorageSecretName = []\<rparr>) (NotFound ''nope'')"
    by (simp add: envSample_def invokerNoRepository_def invokerSample_def)
  have a_cond: "IsNotFound (Some (NotFound ''nope'')) \<and>
      SetCondition_err envSample (RepositoryFound, None) ConditionFalse = None \<and>
      tm_Kind (TypeMeta invokerNoRepository) = ResourceKindBackupConfiguration"
    using kind by (simp add: envSample_def)
  note a = dependency_lookup_policy [OF nd(2) drv(2) fin(1), where key = "''demo/bc''",
      THEN conjunct1, rule_format, OF a_get, THEN conjunct1, rule_format, OF a_cond]
  have b_get: "Repositories_Get envRepositoryError (om_Namespace (ObjectMeta invokerSample))
      (inv_Repository invokerSample) = GetErr None (Err ''connection refused'')"
    by (simp add: envRepositoryError_def)
  have b_cond: "\<not> IsNotFound (Some (Err ''connection refused''))"
    by simp
  have b_wr: "SetCondition_err envRepositoryError (RepositoryFound, None) ConditionUnknown = None"
    by (simp add: envRepositoryError_def envSample_def)
  note b = dependency_lookup_policy [OF nd(1) drv(1) fin(2), where key = "''demo/bc''",
      THEN conjunct1, rule_format, OF b_get, THEN conjunct2, THEN conjunct2, rule_format, OF b_cond]
  have c_found: "Repositories_Get envSecretMissing (om_Namespace (ObjectMeta invokerSample))
        (inv_Repository invokerSample) = GetOk ?repo \<and>
      SetCondition envSecretMissing (RepositoryFound, None) ConditionTrue ?w1 = (None, ?w2) \<and>
      Secrets_Get envSecretMissing (repo_Namespace ?repo) (StorageSecretName ?repo) =
        GetErr (Some ?nosecret) (NotFound ''repo-secret'')"
    by (simp add: envSecretMissing_def envSample_def invokerSample_def SetCondition_def emptyWorld_def)
  have c_cond: "IsNotFound (Some (NotFound ''repo-secret'')) \<and>
      SetCondition_err envSecretMissing (BackendSecretFound, None) ConditionFalse = None \<and>
      tm_Kind (TypeMeta invokerSample) = ResourceKindBackupConfiguration"
    using kind by (simp add: envSecretMissing_def envSample_def)
  note c = dependency_lookup_policy [OF nd(1) drv(1) fin(3), where key = "''demo/bc''",
      THEN conjunct2, rule_format, OF c_found, THEN conjunct1, rule_format, OF c_cond]
  have d_found: "Repositories_Get envSecretError (om_Namespace (ObjectMeta invokerSample))
        (inv_Repository invokerSample) = GetOk ?repo \<and>
      SetCondition envSecretError (RepositoryFound, None) ConditionTrue ?w1 = (None, ?w2) \<and>
      Secrets_Get envSecretError (repo_Namespace ?repo) (StorageSecretName ?repo) =
        GetErr (Some ?nosecret) (Err ''forbidden'')"
    by (simp add: envSecretError_def envSample_def invokerSample_def SetCondition_def emptyWorld_def)
  have d_cond: "\<not> IsNotFound (Some (Err ''forbidden''))"
    by simp
  have d_wr: "SetCondition_err envSecretError (BackendSecretFound, None) ConditionUnknown = None"
    by (simp add: envSecretError_def envSample_def)
  note d = dependency_lookup_policy [OF nd(1) drv(1) fin(4), where key = "''demo/bc''",
      THEN conjunct2, rule_format, OF d_found, THEN conjunct2, THEN conjunct2, rule_format, OF d_cond]
  have agg: "NewAggregate [Some e, None] = Some (Aggregate [e])" for e
    by (simp add: NewAggregate_def List.map_filter_simps)
  have q: "bcQueue ?w1 = []" "bcQueue ?w2 = []"
    by (simp_all add: emptyWorld_def)
  have A: "fst (applyBackupInvokerReconciliationLogic envSample invokerNoRepository ''demo/bc'' emptyWorld) =
        Return None \<and>
      bcQueue (snd (applyBackupInvokerReconciliationLogic envSample invokerNoRepository ''demo/bc'' emptyWorld)) =
        [(''demo/bc'', 5000000000)] \<and>
      condition (snd (applyBackupInvokerReconciliationLogic envSample invokerNoRepository ''demo/bc'' emptyWorld))
          (RepositoryFound, None) = Some ConditionFalse"
    unfolding a by (simp add: emptyWorld_def condition_def Second_def)
  have B: "fst (applyBackupInvokerReconciliationLogic envRepositoryError invokerSample ''demo/bc'' emptyWorld) =
        Return (Some (Aggregate [Err ''connection refused''])) \<and>
      bcQueue (snd (applyBackupInvokerReconciliationLogic envRepositoryError invokerSample ''demo/bc'' emptyWorld)) =
        [] \<and>
      condition (snd (applyBackupInvokerReconciliationLogic envRepositoryError invokerSample ''demo/bc'' emptyWorld))
          (RepositoryFound, None) = Some ConditionUnknown"
    using conjunct1 [OF b, THEN arg_cong, of fst] conjunct1 [OF conjunct2 [OF b]]
      conjunct2 [OF conjunct2 [OF b], rule_format, OF b_wr]
    by (simp only: fst_conv agg q b_wr)
  have C: "fst (applyBackupInvokerReconciliationLogic envSecretMissing invokerSample ''demo/bc'' emptyWorld) =
        Return None \<and>
      bcQueue (snd (applyBackupInvokerReconciliationLogic envSecretMissing invokerSample ''demo/bc'' emptyWorld)) =
        [(''demo/bc'', 5000000000)] \<and>
      condition (snd (applyBackupInvokerReconciliationLogic envSecretMissing invokerSample ''demo/bc'' emptyWorld))
          (BackendSecretFound, None) = Some ConditionFalse"
    unfolding c by (simp add: emptyWorld_def condition_def Second_def)
  have D: "fst (applyBackupInvokerReconciliationLogic envSecretError invokerSample ''demo/bc'' emptyWorld) =
        Return (Some (Aggregate [Err ''forbidden''])) \<and>
      bcQueue (snd (applyBackupInvokerReconciliationLogic envSecretError invokerSample ''demo/bc'' emptyWorld)) =
        [] \<and>
      condition (snd (applyBackupInvokerReconciliationLogic envSecretError invokerSample ''demo/bc'' emptyWorld))
          (BackendSecretFound, None) = Some ConditionUnknown"
    using conjunct1 [OF d, THEN arg_cong, of fst] conjunct1 [OF conjunct2 [OF d]]
      conjunct2 [OF conjunct2 [OF d], rule_format, OF d_wr]
    by (simp only: fst_conv agg q d_wr)
  from A B C D show ?thesis by blast
qed

text \<open>
  Claim C3 as it was stated fails when the repository does not exist and the write of
  \<open>RepositoryFound = False\<close> fails: the pass returns the error of the write and
  requeues nothing.
\<close>

theorem repository_missing_write_failure_no_requeue:
  "DeletionTimestamp (ObjectMeta invokerNoRepository) = None \<and>
   Driver invokerNoRepository = [] \<and>
   Repositories_Get envWriteFails ''demo'' (inv_Repository invokerNoRepository) =
     GetErr (Some \<lparr>repo_Namespace = [], repo_Name = [], StorageSecretName = []\<rparr>) (NotFound ''nope'') \<and>
   IsNotFound (Some (NotFound ''nope'')) \<and>
   fst (applyBackupInvokerReconciliationLogic envWriteFails invokerNoRepository ''demo/bc'' emptyWorld) =
     Return (Some (Err ''conflict'')) \<and>
   fst (applyBackupInvokerReconciliationLogic envWriteFails invokerNoRepository ''demo/bc'' emptyWorld) \<noteq>
     Return None \<and>
   bcQueue (snd (applyBackupInvokerReconciliationLogic envWriteFails invokerNoRepository ''demo/bc'' emptyWorld)) =
     [] \<and>
   condition (snd (applyBackupInvokerReconciliationLogic envWriteFails invokerNoRepository ''demo/bc'' emptyWorld))
       (RepositoryFound, None) = None"
  by code_simp

text \<open>
  The kind of the invoker matters too: for a BackupBatch whose repository does not
  exist, the condition is written, but the requeue fails and its error is returned. And
  a client that returns nil with the error of a failed Secret lookup makes the pass
  panic where it reads the name of the Secret.
\<close>

lemma repository_missing_unsupported_kind_no_requeue:
  "fst (applyBackupInvokerReconciliationLogic envSample (invokerBatch\<lparr>inv_Repository := ''nope''\<rparr>)
          ''demo/bc'' emptyWorld) \<noteq> Return None \<and>
   bcQueue (snd (applyBackupInvokerReconciliationLogic envSample (invokerBatch\<lparr>inv_Repository := ''nope''\<rparr>)
          ''demo/bc'' emptyWorld)) = [] \<and>
   condition (snd (applyBackupInvokerReconciliationLogic envSample (invokerBatch\<lparr>inv_Repository := ''nope''\<rparr>)
          ''demo/bc'' emptyWorld)) (RepositoryFound, None) = Some ConditionFalse"
  by code_simp

lemma secret_lookup_nil_pointer_panics:
  "fst (applyBackupInvokerReconciliationLogic
          (envSample\<lparr>Secrets_Get := (\<lambda>ns name. GetErr None (NotFound name))\<rparr>)
          invokerSample ''demo/bc'' emptyWorld) = Panic"
  by code_simp

section \<open>Properties of the trigger CronJob\<close>

lemma find_storeCronJob:
  "cj_Namespace cj = ns \<Longrightarrow> cj_Name cj = n \<Longrightarrow>
   find (\<lambda>c. cj_Namespace c = ns \<and> cj_Name c = n) (storeCronJob cj cs) = Some cj"
  by (induction cs) auto

lemma cronJobTransform_Suspend:
  "cj_Suspend (cronJobTransform env invoker sa ips in0) = Some (Paused invoker)"
  by (simp add: cronJobTransform_def Let_def split: option.splits)

lemma cronJobTransform_name:
  "cj_Namespace (cronJobTransform env invoker sa ips in0) = cj_Namespace in0 \<and>
   cj_Name (cronJobTransform env invoker sa ips in0) = cj_Name in0"
  by (simp add: cronJobTransform_def Let_def split: option.splits)

lemma CreateOrPatchCronJob_stored:
  assumes ok: "CreateOrPatchCronJob env ns n transform w = (None, w')"
    and name: "\<And>c. cj_Namespace (transform c) = cj_Namespace c \<and> cj_Name (transform c) = cj_Name c"
  shows "\<exists>c. findCronJob w' ns n = Some (transform c)"
proof (cases "CronJobs_Get env w ns n")
  case (GetOk cur)
  then have found: "findCronJob w ns n = Some cur"
    by (auto simp: CronJobs_Get_def split: option.splits)
  then have cur: "cj_Namespace cur = ns" "cj_Name cur = n"
    by (auto simp: findCronJob_def find_Some_iff)
  show ?thesis
  proof (cases "transform cur = cur")
    case True
    with ok GetOk have "w' = w" by (simp add: CreateOrPatchCronJob_def PatchCronJob_def)
    with found True show ?thesis by metis
  next
    case False
    with ok GetOk have "CronJobs w' = storeCronJob (transform cur) (CronJobs w)"
      by (auto simp: CreateOrPatchCronJob_def PatchCronJob_def split: option.splits)
    then show ?thesis
      using find_storeCronJob [of "transform cur" ns n] name [of cur] cur
      by (auto simp: findCronJob_def)
  qed
next
  case (GetErr p e)
  with ok have "CronJobs w' = storeCronJob (transform (newCronJob ns n)) (CronJobs w)"
    by (auto simp: CreateOrPatchCronJob_def split: option.splits if_splits)
  then show ?thesis
    using find_storeCronJob [of "transform (newCronJob ns n)" ns n] name [of "newCronJob ns n"]
    by (auto simp: findCronJob_def newCronJob_def)
qed

text \<open>
  Claim C7. Whenever \<open>EnsureBackupTriggeringCronJob\<close> returns without an error, the
  trigger CronJob of the invoker (the CronJob of its namespace with the name derived
  from its name) is in the cluster with its suspend flag set to the paused flag of the
  invoker: a paused invoker has a suspended CronJob. The transform function sets the
  flag on whatever object it is given.
\<close>

theorem trigger_cronjob_suspend_mirrors_paused:
  assumes "fst (EnsureBackupTriggeringCronJob env invoker w) = None"
  shows "map_option cj_Suspend
           (findCronJob (snd (EnsureBackupTriggeringCronJob env invoker w))
              (om_Namespace (ObjectMeta invoker))
              (getBackupCronJobName env (om_Name (ObjectMeta invoker)))) =
         Some (Some (Paused invoker)) \<and>
         (Paused invoker \<longrightarrow>
            map_option cj_Suspend
              (findCronJob (snd (EnsureBackupTriggeringCronJob env invoker w))
                 (om_Namespace (ObjectMeta invoker))
                 (getBackupCronJobName env (om_Name (ObjectMeta invoker)))) = Some (Some True)) \<and>
         cj_Suspend (cronJobTransform env invoker serviceAccountName imagePullSecrets in0) =
           Some (Paused invoker)"
proof -
  let ?ns = "om_Namespace (ObjectMeta invoker)"
  let ?n = "getBackupCronJobName env (om_Name (ObjectMeta invoker))"
  obtain w' where ens: "EnsureBackupTriggeringCronJob env invoker w = (None, w')"
    using assms by (cases "EnsureBackupTriggeringCronJob env invoker w") simp
  then obtain sa ips w1 where
    "CreateOrPatchCronJob env ?ns ?n (cronJobTransform env invoker sa ips) w1 = (None, w')"
    by (auto simp: EnsureBackupTriggeringCronJob_def Let_def split: option.splits prod.splits if_splits)
  from CreateOrPatchCronJob_stored [OF this cronJobTransform_name]
  obtain c where "findCronJob w' ?ns ?n = Some (cronJobTransform env invoker sa ips c)"
    by blast
  then show ?thesis by (simp add: ens cronJobTransform_Suspend)
qed

theorem trigger_cronjob_suspend_mirrors_paused_witness:
  "map_option cj_Suspend
     (findCronJob (snd (EnsureBackupTriggeringCronJob envSample invokerSample emptyWorld))
        ''demo'' ''stash-trigger-bc'') = Some (Some True) \<and>
   map_option cj_Suspend
     (findCronJob
        (snd (EnsureBackupTriggeringCronJob envSample (invokerSample\<lparr>Paused := False\<rparr>)
                (snd (EnsureBackupTriggeringCronJob envSample invokerSample emptyWorld))))
        ''demo'' ''stash-trigger-bc'') = Some (Some False)"
proof -
  let ?w = "snd (EnsureBackupTriggeringCronJob envSample invokerSample emptyWorld)"
  have ok: "fst (EnsureBackupTriggeringCronJob envSample invokerSample emptyWorld) = None"
    by code_simp
  have ok': "fst (EnsureBackupTriggeringCronJob envSample (invokerSample\<lparr>Paused := False\<rparr>) ?w) = None"
    by code_simp
  have ns: "om_Namespace (ObjectMeta invokerSample) = ''demo''"
    by (simp add: invokerSample_def)
  have n: "getBackupCronJobName envSample (om_Name (ObjectMeta invokerSample)) = ''stash-trigger-bc''"
    by (simp add: getBackupCronJobName_def envSample_def invokerSample_def)
  have paused: "Paused invokerSample" by (simp add: invokerSample_def)
  show ?thesis
    using trigger_cronjob_suspend_mirrors_paused [OF ok]
      trigger_cronjob_suspend_mirrors_paused [OF ok']
    by (simp add: ns n paused)
qed

text \<open>
  The scenario of the specification: the pass of a paused invoker with the schedule
  \<open>*/5 * * * *\<close> whose targets all exist creates the CronJob, suspended, and sets
  the \<open>CronJobCreated\<close> condition.
\<close>

lemma paused_invoker_creates_suspended_cronjob:
  "map_option (\<lambda>cj. (cj_Schedule cj, cj_Suspend cj))
     (findCronJob
        (snd (applyBackupInvokerReconciliationLogic
                (envSample\<lparr>IsTargetExist := (\<lambda>tref ns. (True, None))\<rparr>)
                invokerSample ''demo/bc'' emptyWorld))
        ''demo'' ''stash-trigger-bc'') = Some (''*/5 * * * *'', Some True) \<and>
   condition
     (snd (applyBackupInvokerReconciliationLogic
             (envSample\<lparr>IsTargetExist := (\<lambda>tref ns. (True, None))\<rparr>)
             invokerSample ''demo/bc'' emptyWorld))
     (CronJobCreated, None) = Some ConditionTrue"
  by code_simp

section \<open>Properties of the deletion of an invoker\<close>

lemma handleWorkloadControllerTriggerFailure_result:
  "fst (handleWorkloadControllerTriggerFailure env ref (Some e) w) \<noteq> None \<and>
   stored_Finalizers (snd (handleWorkloadControllerTriggerFailure env ref (Some e) w)) =
     stored_Finalizers w"
  by (auto simp: handleWorkloadControllerTriggerFailure_def CreateEvent_def Let_def
      NewAggregate_def List.map_filter_simps split: option.splits)

lemma EnsureV1beta1SidecarDeleted_frame:
  "stored_Finalizers (snd (EnsureV1beta1SidecarDeleted env tref ns w)) = stored_Finalizers w"
  using sendEventToWorkloadQueue_frame [of env "tr_Kind tref" ns "tr_Name tref" w]
  by (cases "sendEventToWorkloadQueue env (tr_Kind tref) ns (tr_Name tref) w")
    (simp add: EnsureV1beta1SidecarDeleted_def)

text \<open>
  The loop of the deletion branch succeeds exactly when the notification of every target
  returns no error, and it leaves the stored finalizers alone.
\<close>

lemma deleteSidecars_result:
  "(fst (deleteSidecars env invoker targets w) = None \<longleftrightarrow>
      (\<forall>t \<in> set (targetRefs targets).
         notificationError env t (om_Namespace (ObjectMeta invoker)) = None)) \<and>
   stored_Finalizers (snd (deleteSidecars env invoker targets w)) = stored_Finalizers w"
proof (induction targets arbitrary: w)
  case Nil
  then show ?case by (simp add: targetRefs_Nil)
next
  case (Cons ti tis)
  show ?case
  proof (cases "Target ti")
    case None
    with Cons show ?thesis by (simp add: targetRefs_Cons)
  next
    case (Some target)
    let ?ns = "om_Namespace (ObjectMeta invoker)"
    obtain r w1 where ens: "EnsureV1beta1SidecarDeleted env (Ref target) ?ns w = (r, w1)"
      by (cases "EnsureV1beta1SidecarDeleted env (Ref target) ?ns w")
    then have r: "r = notificationError env (Ref target) ?ns"
      using EnsureV1beta1SidecarDeleted_error [of env "Ref target" ?ns w] by simp
    have w1: "stored_Finalizers w1 = stored_Finalizers w"
      using EnsureV1beta1SidecarDeleted_frame [of env "Ref target" ?ns w] ens by simp
    show ?thesis
    proof (cases r)
      case None
      with Some ens r w1 Cons.IH [of w1] show ?thesis
        by (simp add: targetRefs_Cons)
    next
      case (Some e)
      have ne: "notificationError env (Ref target) ?ns = Some e"
        using r Some by simp
      have step: "deleteSidecars env invoker (ti # tis) w =
          handleWorkloadControllerTriggerFailure env (ObjectRef invoker) (Some e) w1"
        using \<open>Target ti = Some target\<close> ens Some by simp
      show ?thesis
        unfolding step
        using handleWorkloadControllerTriggerFailure_result [of env "ObjectRef invoker" e w1]
          w1 ne \<open>Target ti = Some target\<close>
        by (auto simp: targetRefs_Cons)
    qed
  qed
qed

lemma PatchCronJob_frame:
  "stored_Finalizers (snd (PatchCronJob env cur transform w)) = stored_Finalizers w"
  by (simp add: PatchCronJob_def Let_def split: option.splits)

lemma EnsureBackupTriggeringCronJobDeleted_frame:
  "stored_Finalizers (snd (EnsureBackupTriggeringCronJobDeleted env invoker w)) = stored_Finalizers w"
  by (simp add: EnsureBackupTriggeringCronJobDeleted_def PatchCronJob_frame split: GetResult.splits)

text \<open>
  The deletion steps in order: the result is the error of the first step that fails,
  and the stored finalizers change only when every step, the removal included, succeeds.
\<close>

lemma finalizeInvoker_result:
  "fst (finalizeInvoker env invoker w) =
     (case fst (deleteSidecars env invoker (TargetsInfo invoker) w) of
        Some e \<Rightarrow> Some e
      | None \<Rightarrow>
     (case fst (EnsureBackupTriggeringCronJobDeleted env invoker
                  (snd (deleteSidecars env invoker (TargetsInfo invoker) w))) of
        Some e \<Rightarrow> Some e
      | None \<Rightarrow>
     (case EnsureClusterRoleBindingDeleted_err env of
        Some e \<Rightarrow> Some e
      | None \<Rightarrow> RemoveFinalizer_err env))) \<and>
   stored_Finalizers (snd (finalizeInvoker env invoker w)) =
     (if fst (finalizeInvoker env invoker w) = None
      then removeAll StashKey (stored_Finalizers w) else stored_Finalizers w)"
proof -
  obtain r1 w1 where s1: "deleteSidecars env invoker (TargetsInfo invoker) w = (r1, w1)"
    by (cases "deleteSidecars env invoker (TargetsInfo invoker) w")
  obtain r2 w2 where s2: "EnsureBackupTriggeringCronJobDeleted env invoker w1 = (r2, w2)"
    by (cases "EnsureBackupTriggeringCronJobDeleted env invoker w1")
  have f1: "stored_Finalizers w1 = stored_Finalizers w"
    using deleteSidecars_result [of env invoker "TargetsInfo invoker" w] s1 by simp
  have f2: "stored_Finalizers w2 = stored_Finalizers w1"
    using EnsureBackupTriggeringCronJobDeleted_frame [of env invoker w1] s2 by simp
  show ?thesis
    using s1 s2 f1 f2
    by (auto simp: finalizeInvoker_def RemoveFinalizer_def split: option.splits)
qed

lemma deleteSidecars_reread:
  "deleteSidecars env (reread w' invoker) targets w = deleteSidecars env invoker targets w"
  by (induction targets arbitrary: w) (auto simp: reread_def split: option.splits prod.splits)

lemma reread_fields:
  "OwnerRef (reread w' invoker) = OwnerRef invoker"
  "ObjectRef (reread w' invoker) = ObjectRef invoker"
  "TargetsInfo (reread w' invoker) = TargetsInfo invoker"
  "om_Namespace (ObjectMeta (reread w' invoker)) = om_Namespace (ObjectMeta invoker)"
  "om_Name (ObjectMeta (reread w' invoker)) = om_Name (ObjectMeta invoker)"
  by (simp_all add: reread_def)

lemma EnsureBackupTriggeringCronJobDeleted_reread:
  "EnsureBackupTriggeringCronJobDeleted env (reread w' invoker) w =
     EnsureBackupTriggeringCronJobDeleted env invoker w"
  unfolding EnsureBackupTriggeringCronJobDeleted_def reread_fields ..

lemma finalizeInvoker_reread:
  "finalizeInvoker env (reread w' invoker) w = finalizeInvoker env invoker w"
  unfolding finalizeInvoker_def deleteSidecars_reread reread_fields
    EnsureBackupTriggeringCronJobDeleted_reread ..

text \<open>
  Claim C4. In a pass of an invoker whose deletion was requested and which carries the
  finalizer:

  \<^item> if the finalizer is gone from the stored object after the pass, then the
    notification of every target returned no error, the loop of the sidecar removals,
    the CronJob step and the deletion of the ClusterRoleBindings all returned no error,
    and so did the removal itself;

  \<^item> if one of the three steps fails, the pass returns the error of the first step that
    failed (for a notification, the aggregate that \<open>handleWorkloadControllerTriggerFailure\<close>
    builds around it), the stored finalizers are unchanged, and a later pass, which reads
    the invoker again, finds the finalizer and runs the steps of the deletion branch
    again, whatever the collaborators answer then.

  The CronJob step makes the invoker the owner of the CronJob, so that garbage
  collection removes it.
\<close>

theorem finalizer_removed_only_after_cleanup:
  assumes deleting: "DeletionTimestamp (ObjectMeta invoker) \<noteq> None"
    and fin: "HasFinalizer (ObjectMeta invoker) StashKey"
    and stored: "StashKey \<in> set (stored_Finalizers w)"
  shows
   "(StashKey \<notin> set (stored_Finalizers (snd (applyBackupInvokerReconciliationLogic env invoker key w))) \<longrightarrow>
       (\<forall>t \<in> set (targetRefs (TargetsInfo invoker)).
          notificationError env t (om_Namespace (ObjectMeta invoker)) = None) \<and>
       fst (deleteSidecars env invoker (TargetsInfo invoker) w) = None \<and>
       fst (EnsureBackupTriggeringCronJobDeleted env invoker
              (snd (deleteSidecars env invoker (TargetsInfo invoker) w))) = None \<and>
       EnsureClusterRoleBindingDeleted_err env = None \<and>
       RemoveFinalizer_err env = None \<and>
       fst (applyBackupInvokerReconciliationLogic env invoker key w) = Return None) \<and>
    (fst (deleteSidecars env invoker (TargetsInfo invoker) w) \<noteq> None \<or>
     fst (EnsureBackupTriggeringCronJobDeleted env invoker
            (snd (deleteSidecars env invoker (TargetsInfo invoker) w))) \<noteq> None \<or>
     EnsureClusterRoleBindingDeleted_err env \<noteq> None \<longrightarrow>
       fst (applyBackupInvokerReconciliationLogic env invoker key w) =
         Return (case fst (deleteSidecars env invoker (TargetsInfo invoker) w) of
                   Some e \<Rightarrow> Some e
                 | None \<Rightarrow>
                (case fst (EnsureBackupTriggeringCronJobDeleted env invoker
                             (snd (deleteSidecars env invoker (TargetsInfo invoker) w))) of
                   Some e \<Rightarrow> Some e
                 | None \<Rightarrow> EnsureClusterRoleBindingDeleted_err env)) \<and>
       fst (applyBackupInvokerReconciliationLogic env invoker key w) \<noteq> Return None \<and>
       stored_Finalizers (snd (applyBackupInvokerReconciliationLogic env invoker key w)) =
         stored_Finalizers w \<and>
       HasFinalizer
         (ObjectMeta (reread (snd (applyBackupInvokerReconciliationLogic env invoker key w)) invoker))
         StashKey \<and>
       applyBackupInvokerReconciliationLogic env'
           (reread (snd (applyBackupInvokerReconciliationLogic env invoker key w)) invoker) key'
           (snd (applyBackupInvokerReconciliationLogic env invoker key w)) =
         (Return (fst (finalizeInvoker env' invoker
                         (snd (applyBackupInvokerReconciliationLogic env invoker key w)))),
          snd (finalizeInvoker env' invoker
                 (snd (applyBackupInvokerReconciliationLogic env invoker key w)))))"
proof -
  let ?R = "applyBackupInvokerReconciliationLogic env invoker key w"
  let ?r1 = "fst (deleteSidecars env invoker (TargetsInfo invoker) w)"
  let ?r2 = "fst (EnsureBackupTriggeringCronJobDeleted env invoker
                    (snd (deleteSidecars env invoker (TargetsInfo invoker) w)))"
  let ?r3 = "EnsureClusterRoleBindingDeleted_err env"
  have R: "?R = (Return (fst (finalizeInvoker env invoker w)), snd (finalizeInvoker env invoker w))"
    using deleting fin
    by (simp add: applyBackupInvokerReconciliationLogic_def split: prod.splits)
  note fi = finalizeInvoker_result [of env invoker w]
  have removed: "fst (finalizeInvoker env invoker w) = None"
    if "StashKey \<notin> set (stored_Finalizers (snd ?R))"
    using that stored fi unfolding R by (auto split: if_splits)
  have a: "(\<forall>t \<in> set (targetRefs (TargetsInfo invoker)).
              notificationError env t (om_Namespace (ObjectMeta invoker)) = None) \<and>
           ?r1 = None \<and> ?r2 = None \<and> ?r3 = None \<and> RemoveFinalizer_err env = None \<and>
           fst ?R = Return None"
    if "StashKey \<notin> set (stored_Finalizers (snd ?R))"
    using removed [OF that] fi deleteSidecars_result [of env invoker "TargetsInfo invoker" w]
    unfolding R by (auto split: option.splits)
  have b: "fst ?R = Return (case ?r1 of Some e \<Rightarrow> Some e
                            | None \<Rightarrow> (case ?r2 of Some e \<Rightarrow> Some e | None \<Rightarrow> ?r3)) \<and>
           fst ?R \<noteq> Return None \<and> stored_Finalizers (snd ?R) = stored_Finalizers w"
    if "?r1 \<noteq> None \<or> ?r2 \<noteq> None \<or> ?r3 \<noteq> None"
    using that fi unfolding R by (auto split: option.splits)
  have c: "HasFinalizer (ObjectMeta (reread (snd ?R) invoker)) StashKey \<and>
           applyBackupInvokerReconciliationLogic env' (reread (snd ?R) invoker) key' (snd ?R) =
             (Return (fst (finalizeInvoker env' invoker (snd ?R))),
              snd (finalizeInvoker env' invoker (snd ?R)))"
    if "stored_Finalizers (snd ?R) = stored_Finalizers w"
  proof -
    have has: "HasFinalizer (ObjectMeta (reread (snd ?R) invoker)) StashKey"
      using that stored by (simp add: HasFinalizer_def reread_def)
    have del: "DeletionTimestamp (ObjectMeta (reread (snd ?R) invoker)) \<noteq> None"
      using deleting by (simp add: reread_def)
    show ?thesis
      using has del
      by (simp add: applyBackupInvokerReconciliationLogic_def finalizeInvoker_reread
          split: prod.splits)
  qed
  from a b c show ?thesis by blast
qed


theorem finalizer_removed_only_after_cleanup_witness:
  "(fst (deleteSidecars envSample invokerDeleting (TargetsInfo invokerDeleting) worldDeleting) = None \<and>
    fst (EnsureBackupTriggeringCronJobDeleted envSample invokerDeleting
           (snd (deleteSidecars envSample invokerDeleting (TargetsInfo invokerDeleting) worldDeleting))) =
      None \<and>
    EnsureClusterRoleBindingDeleted_err envSample = None \<and>
    RemoveFinalizer_err envSample = None \<and>
    fst (applyBackupInvokerReconciliationLogic envSample invokerDeleting ''demo/bc'' worldDeleting) =
      Return None) \<and>
   (fst (applyBackupInvokerReconciliationLogic envBindingsFail invokerDeleting ''demo/bc'' worldDeleting) \<noteq>
      Return None \<and>
    stored_Finalizers
      (snd (applyBackupInvokerReconciliationLogic envBindingsFail invokerDeleting ''demo/bc'' worldDeleting)) =
      stored_Finalizers worldDeleting \<and>
    HasFinalizer
      (ObjectMeta
        (reread (snd (applyBackupInvokerReconciliationLogic envBindingsFail invokerDeleting ''demo/bc''
                        worldDeleting)) invokerDeleting))
      StashKey \<and>
    applyBackupInvokerReconciliationLogic envSample
        (reread (snd (applyBackupInvokerReconciliationLogic envBindingsFail invokerDeleting ''demo/bc''
                        worldDeleting)) invokerDeleting)
        ''demo/bc''
        (snd (applyBackupInvokerReconciliationLogic envBindingsFail invokerDeleting ''demo/bc''
                worldDeleting)) =
      (Return (fst (finalizeInvoker envSample invokerDeleting
                      (snd (applyBackupInvokerReconciliationLogic envBindingsFail invokerDeleting
                              ''demo/bc'' worldDeleting)))),
       snd (finalizeInvoker envSample invokerDeleting
              (snd (applyBackupInvokerReconciliationLogic envBindingsFail invokerDeleting
                      ''demo/bc'' worldDeleting))))) \<and>
   fst (applyBackupInvokerReconciliationLogic envBindingsFail invokerDeleting ''demo/bc'' worldDeleting) =
     Return (Some (Err ''forbidden'')) \<and>
   stored_Finalizers
     (snd (finalizeInvoker envSample invokerDeleting
             (snd (applyBackupInvokerReconciliationLogic envBindingsFail invokerDeleting
                     ''demo/bc'' worldDeleting)))) = []"
proof -
  have del: "DeletionTimestamp (ObjectMeta invokerDeleting) \<noteq> None"
    by (simp add: invokerDeleting_def)
  have fin: "HasFinalizer (ObjectMeta invokerDeleting) StashKey"
    by (simp add: invokerDeleting_def HasFinalizer_def StashKey_def)
  have stored: "StashKey \<in> set (stored_Finalizers worldDeleting)"
    by (simp add: worldDeleting_def StashKey_def)
  have removed: "StashKey \<notin> set (stored_Finalizers
      (snd (applyBackupInvokerReconciliationLogic envSample invokerDeleting ''demo/bc'' worldDeleting)))"
    by code_simp
  have fails: "EnsureClusterRoleBindingDeleted_err envBindingsFail \<noteq> None"
    by (simp add: envBindingsFail_def)
  note a = finalizer_removed_only_after_cleanup [OF del fin stored, where env = envSample and
      key = "''demo/bc''", THEN conjunct1, rule_format, OF removed, THEN conjunct2]
  note b = finalizer_removed_only_after_cleanup [OF del fin stored, where env = envBindingsFail and
      key = "''demo/bc''" and env' = envSample and key' = "''demo/bc''",
      THEN conjunct2, rule_format, OF disjI2 [OF disjI2 [OF fails]], THEN conjunct2]
  have c: "fst (applyBackupInvokerReconciliationLogic envBindingsFail invokerDeleting ''demo/bc''
      worldDeleting) = Return (Some (Err ''forbidden''))"
    by code_simp
  have d: "stored_Finalizers
     (snd (finalizeInvoker envSample invokerDeleting
             (snd (applyBackupInvokerReconciliationLogic envBindingsFail invokerDeleting
                     ''demo/bc'' worldDeleting)))) = []"
    by code_simp
  show ?thesis
    by (rule conjI [OF a conjI [OF b conjI [OF c d]]])
qed

text \<open>
  A notification that fails: the key of the Deployment \<open>web\<close> cannot be computed. The
  pass returns the aggregate built around that error, notifies no further target and
  leaves the finalizer in place.
\<close>

lemma sidecar_notification_failure_keeps_finalizer:
  "fst (applyBackupInvokerReconciliationLogic envKeyFails invokerDeleting ''demo/bc'' worldDeleting) =
     Return (Some (Aggregate [Err ''object has no meta'']))  \<and>
   workloadQueues
     (snd (applyBackupInvokerReconciliationLogic envKeyFails invokerDeleting ''demo/bc'' worldDeleting)) =
     [] \<and>
   stored_Finalizers
     (snd (applyBackupInvokerReconciliationLogic envKeyFails invokerDeleting ''demo/bc'' worldDeleting)) =
     [''stash.appscode.com'']"
  by code_simp

section \<open>Properties of the run lock\<close>

lemma runOnceLocked_locked: "locked (snd (runOnceLocked env s)) = locked s"
  by (simp add: runOnceLocked_def call_def Let_def
      split: GetResult.splits option.splits prod.splits)

lemma checkLocked_locked: "locked (snd (checkLocked env repository s)) = locked s"
  by (simp add: checkLocked_def call_def Let_def split: option.splits)

lemma checkLocked_result:
  "fst (checkLocked env repository s) = Check_err env \<and>
   calls (snd (checkLocked env repository s)) =
     calls s @ CallCheck #
       (if Check_err env \<noteq> None \<and> GetReference_err env = None
        then [CallRecordEvent ''EventReasonFailedToCheck''] else [])"
  by (simp add: checkLocked_def call_def Let_def split: option.splits)

text \<open>
  Claim C5, as amended. The backup action tries the run lock first and without
  blocking: when the token is not there, the call returns at once with no error and the
  controller is exactly as before (no work done, nothing queued); when the token is
  there, the call takes it, runs, and returns with the token back in the run lock,
  whatever the collaborators answer. The check action looks the Repository up first: a
  failed lookup ends the call without touching the run lock, with no error when the
  Repository does not exist and with the error of the lookup otherwise. After a
  successful lookup the check action tries the run lock without blocking: without the
  token it returns at once with no error and without checking; with the token it checks
  and returns, with the error of the check if any, the token back in the run lock.
\<close>

theorem run_lock_policy:
  "(\<not> locked s \<longrightarrow> runOnceForScheduler env s = Some (None, s)) \<and>
   (locked s \<longrightarrow>
      runOnceForScheduler env s =
        Some (fst (runOnceLocked env (s\<lparr>locked := False\<rparr>)),
              (snd (runOnceLocked env (s\<lparr>locked := False\<rparr>)))\<lparr>locked := True\<rparr>)) \<and>
   (sched_Repositories_Get env = GetErr p err \<longrightarrow>
      checkOnceForScheduler env s =
        Some (if IsNotFound (Some err) then None else Some err, call CallRepositoriesGet s)) \<and>
   (sched_Repositories_Get env = GetOk repository \<and> \<not> locked s \<longrightarrow>
      checkOnceForScheduler env s = Some (None, call CallRepositoriesGet s)) \<and>
   (sched_Repositories_Get env = GetOk repository \<and> locked s \<longrightarrow>
      checkOnceForScheduler env s =
        Some (Check_err env,
              (snd (checkLocked env repository ((call CallRepositoriesGet s)\<lparr>locked := False\<rparr>)))
                \<lparr>locked := True\<rparr>) \<and>
      CallCheck \<in> set (calls (snd (checkLocked env repository
                                     ((call CallRepositoriesGet s)\<lparr>locked := False\<rparr>)))))"
proof -
  have a: "runOnceForScheduler env s = Some (None, s)" if "\<not> locked s"
    using that by (simp add: runOnceForScheduler_def tryReceive_def)
  have b: "runOnceForScheduler env s =
        Some (fst (runOnceLocked env (s\<lparr>locked := False\<rparr>)),
              (snd (runOnceLocked env (s\<lparr>locked := False\<rparr>)))\<lparr>locked := True\<rparr>)" if "locked s"
  proof -
    obtain r s2 where run: "runOnceLocked env (s\<lparr>locked := False\<rparr>) = (r, s2)"
      by (cases "runOnceLocked env (s\<lparr>locked := False\<rparr>)")
    with runOnceLocked_locked [of env "s\<lparr>locked := False\<rparr>"] have "\<not> locked s2" by simp
    with that run show ?thesis
      by (simp add: runOnceForScheduler_def tryReceive_def send_def)
  qed
  have c: "checkOnceForScheduler env s =
        Some (if IsNotFound (Some err) then None else Some err, call CallRepositoriesGet s)"
    if "sched_Repositories_Get env = GetErr p err"
    using that by (simp add: checkOnceForScheduler_def)
  have d: "checkOnceForScheduler env s = Some (None, call CallRepositoriesGet s)"
    if "sched_Repositories_Get env = GetOk repository" "\<not> locked s"
    using that by (simp add: checkOnceForScheduler_def tryReceive_def call_def)
  let ?s1 = "(call CallRepositoriesGet s)\<lparr>locked := False\<rparr>"
  have e: "checkOnceForScheduler env s =
        Some (Check_err env, (snd (checkLocked env repository ?s1))\<lparr>locked := True\<rparr>)"
    if "sched_Repositories_Get env = GetOk repository" "locked s"
  proof -
    obtain r s2 where run: "checkLocked env repository ?s1 = (r, s2)"
      by (cases "checkLocked env repository ?s1")
    with checkLocked_locked [of env repository ?s1] checkLocked_result [of env repository ?s1]
    have "\<not> locked s2" and "r = Check_err env" by simp_all
    moreover have "locked (call CallRepositoriesGet s)" using that by (simp add: call_def)
    ultimately show ?thesis
      using that run by (simp add: checkOnceForScheduler_def tryReceive_def send_def)
  qed
  have f: "CallCheck \<in> set (calls (snd (checkLocked env repository ?s1)))"
    using checkLocked_result [of env repository ?s1] by simp
  from a b c d e f show ?thesis by blast
qed


theorem run_lock_policy_witness:
  "runOnceForScheduler schedEnvSample controllerBusy = Some (None, controllerBusy) \<and>
   map_option (\<lambda>(r, s). (r, locked s, calls s)) (runOnceForScheduler schedEnvSample controllerIdle) =
     Some (None, True,
           [CallResticsGet, CallSecretsGet ''repo-secret'', CallSetupEnv,
            CallInitRepositoryIfAbsent, CallCreateRepositoryCrd, CallRunResticBackup]) \<and>
   map_option (\<lambda>(r, s). (r, locked s)) (runOnceForScheduler schedEnvBackupFails controllerIdle) =
     Some (Some (Err ''backup failed''), True) \<and>
   checkOnceForScheduler schedEnvNoRepository controllerIdle =
     Some (None, call CallRepositoriesGet controllerIdle) \<and>
   checkOnceForScheduler schedEnvSample controllerBusy =
     Some (None, call CallRepositoriesGet controllerBusy) \<and>
   map_option (\<lambda>(r, s). (r, locked s, calls s)) (checkOnceForScheduler schedEnvCheckFails controllerIdle) =
     Some (Some (Err ''repository damaged''), True,
           [CallRepositoriesGet, CallCheck, CallRecordEvent ''EventReasonFailedToCheck''])"
proof -
  have busy: "\<not> locked controllerBusy" and idle: "locked controllerIdle"
    by (simp_all add: controllerBusy_def controllerIdle_def)
  have found: "sched_Repositories_Get schedEnvSample = GetOk repositorySample"
    "sched_Repositories_Get schedEnvCheckFails = GetOk repositorySample"
    by (simp_all add: schedEnvSample_def schedEnvCheckFails_def)
  have missing: "sched_Repositories_Get schedEnvNoRepository = GetErr None (NotFound ''deployment.web'')"
    by (simp add: schedEnvNoRepository_def)
  note t = run_lock_policy
  have a: "runOnceForScheduler schedEnvSample controllerBusy = Some (None, controllerBusy)"
    using t [of controllerBusy schedEnvSample] busy by simp
  have b: "map_option (\<lambda>(r, s). (r, locked s, calls s))
        (runOnceForScheduler schedEnvSample controllerIdle) =
      Some (None, True,
            [CallResticsGet, CallSecretsGet ''repo-secret'', CallSetupEnv,
             CallInitRepositoryIfAbsent, CallCreateRepositoryCrd, CallRunResticBackup])"
    unfolding t [of controllerIdle schedEnvSample, THEN conjunct2, THEN conjunct1, rule_format, OF idle]
    by (simp add: runOnceLocked_def schedEnvSample_def controllerIdle_def call_def resticSample_def)
  have c: "map_option (\<lambda>(r, s). (r, locked s)) (runOnceForScheduler schedEnvBackupFails controllerIdle) =
      Some (Some (Err ''backup failed''), True)"
    unfolding t [of controllerIdle schedEnvBackupFails, THEN conjunct2, THEN conjunct1, rule_format, OF idle]
    by (simp add: runOnceLocked_def schedEnvBackupFails_def schedEnvSample_def controllerIdle_def
        call_def resticSample_def)
  have d: "checkOnceForScheduler schedEnvNoRepository controllerIdle =
      Some (None, call CallRepositoriesGet controllerIdle)"
    using t [of controllerIdle schedEnvNoRepository None "NotFound ''deployment.web''"] missing
    by simp
  have e: "checkOnceForScheduler schedEnvSample controllerBusy =
      Some (None, call CallRepositoriesGet controllerBusy)"
    using t [of controllerBusy schedEnvSample _ _ repositorySample] found busy by simp
  have f: "map_option (\<lambda>(r, s). (r, locked s, calls s))
        (checkOnceForScheduler schedEnvCheckFails controllerIdle) =
      Some (Some (Err ''repository damaged''), True,
            [CallRepositoriesGet, CallCheck, CallRecordEvent ''EventReasonFailedToCheck''])"
    unfolding t [of controllerIdle schedEnvCheckFails _ _ repositorySample, THEN conjunct2,
        THEN conjunct2, THEN conjunct2, THEN conjunct2, rule_format, OF conjI [OF found(2) idle],
        THEN conjunct1]
    by (simp add: checkLocked_def schedEnvCheckFails_def schedEnvSample_def controllerIdle_def call_def)
  from a b c d e f show ?thesis by blast
qed

text \<open>
  Claim C5 as it was stated fails for the check action: with the token held by a run
  and a Repository lookup that fails, the firing returns the error of the lookup.
\<close>

theorem check_without_token_returns_lookup_error:
  "\<not> locked controllerBusy \<and>
   checkOnceForScheduler schedEnvLookupFails controllerBusy =
     Some (Some (Err ''connection refused''), call CallRepositoriesGet controllerBusy) \<and>
   map_option fst (checkOnceForScheduler schedEnvLookupFails controllerBusy) \<noteq> Some None"
  by code_simp

section \<open>Properties of the scheduler start and of the check action\<close>

text \<open>
  Claim C6, as amended. For the workload kinds Deployment, ReplicaSet and
  ReplicationController \<open>BackupScheduler\<close> does not set up the scheduler itself: it
  starts one goroutine, the leader election with a lease duration of 15 seconds, a renew
  deadline of 10 seconds and a retry period of 2 seconds (or returns the error of
  building the resource lock), and the scheduler is set up and started from that
  election, in the callback for gained leadership. For every other workload kind,
  whether or not it runs several replicas, no election is started: \<open>BackupScheduler\<close>
  sets the scheduler up itself and starts it, as the goroutine \<open>runScheduler\<close>, which
  starts the cron.
\<close>

theorem leader_election_gate:
  "(Workload_Kind env = KindDeployment \<or> Workload_Kind env = KindReplicaSet \<or>
    Workload_Kind env = KindReplicationController \<longrightarrow>
      (resourcelock_New_err env = None \<longrightarrow>
         BackupScheduler env s =
           (None, s\<lparr>goroutines := goroutines s @
              [RunLeaderElection
                 \<lparr>Lock = GetConfigmapLockName env, Identity = PodName env,
                  LeaseDuration = 15 * Second, RenewDeadline = 10 * Second,
                  RetryPeriod = 2 * Second\<rparr>]\<rparr>)) \<and>
      (resourcelock_New_err env = Some err \<longrightarrow>
         BackupScheduler env s = (Some (Errorf ''error during leader election: '' err), s)) \<and>
      cronRunning (snd (BackupScheduler env s)) = cronRunning s \<and>
      resticWatcher (snd (BackupScheduler env s)) = resticWatcher s \<and>
      (RunScheduler \<in> set (goroutines (snd (BackupScheduler env s))) \<longrightarrow>
         RunScheduler \<in> set (goroutines s))) \<and>
   runGoroutine env (RunLeaderElection config) s = Some (snd (setupAndRunScheduler env s)) \<and>
   (Workload_Kind env \<noteq> KindDeployment \<and> Workload_Kind env \<noteq> KindReplicaSet \<and>
    Workload_Kind env \<noteq> KindReplicationController \<longrightarrow>
      BackupScheduler env s = setupAndRunScheduler env s \<and>
      (RunLeaderElection config \<in> set (goroutines (snd (BackupScheduler env s))) \<longrightarrow>
         RunLeaderElection config \<in> set (goroutines s))) \<and>
   (snd (setup_result env) = None \<longrightarrow>
      setupAndRunScheduler env s =
        (None, s\<lparr>resticWatcher := True, goroutines := goroutines s @ [RunScheduler]\<rparr>)) \<and>
   (\<not> locked s \<longrightarrow>
      map_option (\<lambda>s'. (cronRunning s', locked s')) (runGoroutine env RunScheduler s) =
        Some (True, True))"
proof -
  have gated: "BackupScheduler env s = electLeader env s"
    if "Workload_Kind env = KindDeployment \<or> Workload_Kind env = KindReplicaSet \<or>
        Workload_Kind env = KindReplicationController"
    using that by (simp add: BackupScheduler_def)
  have direct: "BackupScheduler env s = setupAndRunScheduler env s"
    if "Workload_Kind env \<noteq> KindDeployment \<and> Workload_Kind env \<noteq> KindReplicaSet \<and>
        Workload_Kind env \<noteq> KindReplicationController"
    using that by (simp add: BackupScheduler_def)
  have elect: "(resourcelock_New_err env = None \<longrightarrow>
         electLeader env s =
           (None, s\<lparr>goroutines := goroutines s @
              [RunLeaderElection
                 \<lparr>Lock = GetConfigmapLockName env, Identity = PodName env,
                  LeaseDuration = 15 * Second, RenewDeadline = 10 * Second,
                  RetryPeriod = 2 * Second\<rparr>]\<rparr>)) \<and>
      (resourcelock_New_err env = Some err \<longrightarrow>
         electLeader env s = (Some (Errorf ''error during leader election: '' err), s)) \<and>
      cronRunning (snd (electLeader env s)) = cronRunning s \<and>
      resticWatcher (snd (electLeader env s)) = resticWatcher s \<and>
      (RunScheduler \<in> set (goroutines (snd (electLeader env s))) \<longrightarrow>
         RunScheduler \<in> set (goroutines s))"
    by (auto simp: electLeader_def split: option.splits)
  have nolead: "RunLeaderElection config \<in> set (goroutines (snd (setupAndRunScheduler env s))) \<longrightarrow>
      RunLeaderElection config \<in> set (goroutines s)"
    by (auto simp: setupAndRunScheduler_def call_def Let_def split: option.splits prod.splits)
  have ok: "setupAndRunScheduler env s =
      (None, s\<lparr>resticWatcher := True, goroutines := goroutines s @ [RunScheduler]\<rparr>)"
    if "snd (setup_result env) = None"
    using that by (cases "setup_result env") (simp add: setupAndRunScheduler_def)
  have run: "map_option (\<lambda>s'. (cronRunning s', locked s')) (runGoroutine env RunScheduler s) =
      Some (True, True)" if "\<not> locked s"
    using that by (simp add: runScheduler_def send_def)
  have cb: "runGoroutine env (RunLeaderElection config) s = Some (snd (setupAndRunScheduler env s))"
    by (simp add: OnStartedLeading_def)
  show ?thesis
    using gated direct elect nolead ok run cb by presburger
qed


theorem leader_election_gate_witness:
  "BackupScheduler schedEnvSample controllerNew =
     (None, controllerNew\<lparr>goroutines := goroutines controllerNew @
        [RunLeaderElection
           \<lparr>Lock = GetConfigmapLockName schedEnvSample, Identity = PodName schedEnvSample,
            LeaseDuration = 15 * Second, RenewDeadline = 10 * Second,
            RetryPeriod = 2 * Second\<rparr>]\<rparr>) \<and>
   BackupScheduler schedEnvStatefulSet controllerNew =
     (None, controllerNew\<lparr>resticWatcher := True,
                           goroutines := goroutines controllerNew @ [RunScheduler]\<rparr>) \<and>
   map_option (\<lambda>s'. (cronRunning s', locked s'))
     (runGoroutine schedEnvStatefulSet RunScheduler controllerNew) = Some (True, True) \<and>
   (15 * Second, 10 * Second, 2 * Second) = (15000000000, 10000000000, 2000000000)"
proof -
  have gated: "Workload_Kind schedEnvSample = KindDeployment \<or>
      Workload_Kind schedEnvSample = KindReplicaSet \<or>
      Workload_Kind schedEnvSample = KindReplicationController"
    by (simp add: schedEnvSample_def KindDeployment_def)
  have lock: "resourcelock_New_err schedEnvSample = None"
    by (simp add: schedEnvSample_def)
  have direct: "Workload_Kind schedEnvStatefulSet \<noteq> KindDeployment \<and>
      Workload_Kind schedEnvStatefulSet \<noteq> KindReplicaSet \<and>
      Workload_Kind schedEnvStatefulSet \<noteq> KindReplicationController"
    by (simp add: schedEnvStatefulSet_def KindDeployment_def KindReplicaSet_def
        KindReplicationController_def)
  have ok: "snd (setup_result schedEnvStatefulSet) = None"
    by (simp add: schedEnvStatefulSet_def schedEnvSample_def)
  have new: "\<not> locked controllerNew"
    by (simp add: controllerNew_def)
  note a = leader_election_gate [of schedEnvSample controllerNew, THEN conjunct1, rule_format,
      OF gated, THEN conjunct1, rule_format, OF lock]
  note t = leader_election_gate [of schedEnvStatefulSet controllerNew, THEN conjunct2, THEN conjunct2]
  note b1 = t [THEN conjunct1, rule_format, OF direct, THEN conjunct1]
  note b2 = t [THEN conjunct2, THEN conjunct1, rule_format, OF ok]
  note c = t [THEN conjunct2, THEN conjunct2, rule_format, OF new]
  have d: "(15 * Second, 10 * Second, 2 * Second) = (15000000000, 10000000000, 2000000000)"
    by (simp add: Second_def)
  show ?thesis
    using a b1 [unfolded b2] c d by (intro conjI)
qed

text \<open>
  Claim C6 as it was stated fails for a DaemonSet: the workload runs one pod per node,
  each with its sidecar (two ready pods here), yet the controller in each pod starts the
  scheduler directly; no leader election is started. The same holds of a StatefulSet.
\<close>

theorem daemonset_scheduler_bypasses_leader_election:
  "daemonSetReadyWithSidecar (GetOk daemonSetTwoNodes) (daemonSetPods, None) = (True, None) \<and>
   length daemonSetPods = 2 \<and>
   Workload_Kind schedEnvDaemonSet = KindDaemonSet \<and>
   BackupScheduler schedEnvDaemonSet controllerNew =
     (None, controllerNew\<lparr>resticWatcher := True, goroutines := [RunScheduler]\<rparr>) \<and>
   goroutines (snd (BackupScheduler schedEnvDaemonSet controllerNew)) = [RunScheduler] \<and>
   goroutines (snd (BackupScheduler schedEnvStatefulSet controllerNew)) = [RunScheduler]"
  by code_simp

text \<open>
  The registration and the firing of the check action. \<open>configureScheduler\<close> registers
  the backup action under the schedule of the Restic and, when that registration
  succeeded, the check action under the constant expression \<open>0 0 */3 * *\<close>: the
  expression of the check action is the same for every Restic, and when the cron
  library rejects the schedule of the Restic the check action is not registered. When
  the check action fires it looks the Repository up; if the Repository exists and the
  token is in the run lock, it calls the check of the repository exactly once (and
  records an event when the check fails); if the lookup fails or the token is not there,
  it returns without calling the check. At which times the cron library fires an entry
  registered under that expression is decided by the parser of the library, which is
  not among the sources; nothing is stated about it here.
\<close>

lemma check_action_registration:
  "(fst (configureScheduler env r s) = None \<longrightarrow>
      cronEntries (snd (configureScheduler env r s)) =
        [(restic_Schedule r, BackupAction r), (checkSchedule, CheckAction)]) \<and>
   checkSchedule = ''0 0 */3 * *'' \<and>
   ((spec, CheckAction) \<in> set (cronEntries (snd (configureScheduler env r s))) \<longrightarrow>
      spec = checkSchedule \<and> cron_AddFunc_err env (restic_Schedule r) = None) \<and>
   (cron_AddFunc_err env (restic_Schedule r) = Some err \<longrightarrow>
      configureScheduler env r s = (Some err, s\<lparr>cronEntries := []\<rparr>)) \<and>
   fire env CheckAction s = map_option snd (checkOnceForScheduler env s) \<and>
   (sched_Repositories_Get env = GetOk repository \<and> locked s \<longrightarrow>
      map_option calls (fire env CheckAction s) =
        Some (calls s @ [CallRepositoriesGet, CallCheck] @
                (if Check_err env \<noteq> None \<and> GetReference_err env = None
                 then [CallRecordEvent ''EventReasonFailedToCheck''] else []))) \<and>
   (sched_Repositories_Get env = GetOk repository \<and> \<not> locked s \<longrightarrow>
      map_option calls (fire env CheckAction s) = Some (calls s @ [CallRepositoriesGet])) \<and>
   (sched_Repositories_Get env = GetErr p lookupErr \<longrightarrow>
      map_option calls (fire env CheckAction s) = Some (calls s @ [CallRepositoriesGet]))"
proof -
  have reg: "cronEntries (snd (configureScheduler env r s)) =
        [(restic_Schedule r, BackupAction r), (checkSchedule, CheckAction)]"
    if "fst (configureScheduler env r s) = None"
    using that by (auto simp: configureScheduler_def Let_def split: option.splits)
  have only: "spec = checkSchedule \<and> cron_AddFunc_err env (restic_Schedule r) = None"
    if "(spec, CheckAction) \<in> set (cronEntries (snd (configureScheduler env r s)))"
    using that by (auto simp: configureScheduler_def Let_def split: option.splits)
  have lit: "checkSchedule = ''0 0 */3 * *''"
    by (simp add: checkSchedule_def)
  have rej: "configureScheduler env r s = (Some err, s\<lparr>cronEntries := []\<rparr>)"
    if "cron_AddFunc_err env (restic_Schedule r) = Some err"
    using that by (simp add: configureScheduler_def)
  have fire: "fire env CheckAction s = map_option snd (checkOnceForScheduler env s)"
    by (cases "checkOnceForScheduler env s") auto
  have run: "map_option calls (fire env CheckAction s) =
        Some (calls s @ [CallRepositoriesGet, CallCheck] @
                (if Check_err env \<noteq> None \<and> GetReference_err env = None
                 then [CallRecordEvent ''EventReasonFailedToCheck''] else []))"
    if "sched_Repositories_Get env = GetOk repository" "locked s"
    using that unfolding fire
    by (auto simp: checkOnceForScheduler_def tryReceive_def send_def checkLocked_def call_def
        Let_def split: option.splits)
  have skip: "map_option calls (fire env CheckAction s) = Some (calls s @ [CallRepositoriesGet])"
    if "sched_Repositories_Get env = GetOk repository" "\<not> locked s"
    using that unfolding fire
    by (simp add: checkOnceForScheduler_def tryReceive_def call_def)
  have fail: "map_option calls (fire env CheckAction s) = Some (calls s @ [CallRepositoriesGet])"
    if "sched_Repositories_Get env = GetErr p lookupErr"
    using that unfolding fire
    by (simp add: checkOnceForScheduler_def call_def Let_def)
  show ?thesis
    by (intro conjI impI; (elim conjE)?;
        (rule reg only [THEN conjunct1] only [THEN conjunct2] rej fire run skip fail lit; assumption))
qed

lemma check_action_registration_sample:
  "cronEntries (snd (configureScheduler schedEnvSample resticSample controllerIdle)) =
     [(''@every 1h'', BackupAction resticSample), (''0 0 */3 * *'', CheckAction)] \<and>
   cronEntries (snd (configureScheduler schedEnvSample
                       (resticSample\<lparr>restic_Schedule := ''0 2 * * *''\<rparr>) controllerIdle)) =
     [(''0 2 * * *'', BackupAction (resticSample\<lparr>restic_Schedule := ''0 2 * * *''\<rparr>)),
      (''0 0 */3 * *'', CheckAction)] \<and>
   configureScheduler schedEnvSample (resticSample\<lparr>restic_Schedule := []\<rparr>) controllerIdle =
     (Some (Err ''empty spec string''), controllerIdle\<lparr>cronEntries := []\<rparr>) \<and>
   map_option calls (fire schedEnvSample CheckAction controllerIdle) =
     Some [CallRepositoriesGet, CallCheck] \<and>
   map_option calls (fire schedEnvSample CheckAction controllerBusy) =
     Some [CallRepositoriesGet] \<and>
   map_option calls (fire schedEnvNoRepository CheckAction controllerIdle) =
     Some [CallRepositoriesGet]"
proof -
  let ?r2 = "resticSample\<lparr>restic_Schedule := ''0 2 * * *''\<rparr>"
  let ?r3 = "resticSample\<lparr>restic_Schedule := []\<rparr>"
  have ok: "fst (configureScheduler schedEnvSample resticSample controllerIdle) = None"
    "fst (configureScheduler schedEnvSample ?r2 controllerIdle) = None"
    by (simp_all add: configureScheduler_def schedEnvSample_def resticSample_def checkSchedule_def)
  have rejected: "cron_AddFunc_err schedEnvSample (restic_Schedule ?r3) = Some (Err ''empty spec string'')"
    by (simp add: schedEnvSample_def)
  have found: "sched_Repositories_Get schedEnvSample = GetOk repositorySample"
    by (simp add: schedEnvSample_def)
  have missing: "sched_Repositories_Get schedEnvNoRepository = GetErr None (NotFound ''deployment.web'')"
    by (simp add: schedEnvNoRepository_def)
  have idle: "locked controllerIdle" and busy: "\<not> locked controllerBusy"
    by (simp_all add: controllerIdle_def controllerBusy_def)
  have vals: "restic_Schedule resticSample = ''@every 1h''" "restic_Schedule ?r2 = ''0 2 * * *''"
    "calls controllerIdle = []" "calls controllerBusy = []"
    "Check_err schedEnvSample = None"
    by (simp_all add: resticSample_def controllerIdle_def controllerBusy_def schedEnvSample_def)
  note t = check_action_registration
  have sched: "checkSchedule = ''0 0 */3 * *''"
    by (rule t [THEN conjunct2, THEN conjunct1])
  have a: "cronEntries (snd (configureScheduler schedEnvSample resticSample controllerIdle)) =
      [(''@every 1h'', BackupAction resticSample), (''0 0 */3 * *'', CheckAction)]"
    using t [of schedEnvSample resticSample controllerIdle, THEN conjunct1, rule_format, OF ok(1)]
    by (simp only: sched vals)
  have b: "cronEntries (snd (configureScheduler schedEnvSample ?r2 controllerIdle)) =
      [(''0 2 * * *'', BackupAction ?r2), (''0 0 */3 * *'', CheckAction)]"
    using t [of schedEnvSample ?r2 controllerIdle, THEN conjunct1, rule_format, OF ok(2)]
    by (simp only: sched vals)
  note rest = t [THEN conjunct2, THEN conjunct2, THEN conjunct2]
  have c: "configureScheduler schedEnvSample ?r3 controllerIdle =
      (Some (Err ''empty spec string''), controllerIdle\<lparr>cronEntries := []\<rparr>)"
    by (rule rest [THEN conjunct1, rule_format, OF rejected])
  note idleFires = check_action_registration [where s = controllerIdle, THEN conjunct2,
      THEN conjunct2, THEN conjunct2, THEN conjunct2, THEN conjunct2]
  note busyFires = check_action_registration [where s = controllerBusy, THEN conjunct2,
      THEN conjunct2, THEN conjunct2, THEN conjunct2, THEN conjunct2]
  have d: "map_option calls (fire schedEnvSample CheckAction controllerIdle) =
      Some [CallRepositoriesGet, CallCheck]"
    using idleFires [THEN conjunct1, rule_format, OF conjI [OF found idle]]
    by (simp add: vals)
  have e: "map_option calls (fire schedEnvSample CheckAction controllerBusy) =
      Some [CallRepositoriesGet]"
    using busyFires [THEN conjunct2, THEN conjunct1, rule_format, OF conjI [OF found busy]]
    by (simp add: vals)
  have f: "map_option calls (fire schedEnvNoRepository CheckAction controllerIdle) =
      Some [CallRepositoriesGet]"
    using idleFires [THEN conjunct2, THEN conjunct2, rule_format, OF missing]
    by (simp add: vals)
  from a b c d e f show ?thesis by blast
qed

text \<open>
  A firing of the check action while the Repository object does not exist yet: the
  action runs, with the token in the run lock, and returns without calling the check of
  the repository.
\<close>

lemma check_action_skips_missing_repository:
  "locked controllerIdle \<and>
   fire schedEnvNoRepository CheckAction controllerIdle =
     Some (call CallRepositoriesGet controllerIdle) \<and>
   map_option (\<lambda>s. CallCheck \<in> set (calls s)) (fire schedEnvNoRepository CheckAction controllerIdle) =
     Some False"
  by code_simp


end
